theory Spec2Isabelle
  imports Main
begin

section \<open>Python values\<close>

text \<open>
  The values that flow through the tool layer are JSON-like Python objects: configuration
  documents, parameter schemas and call arguments. \<open>PObj c r\<close> is any other object, of
  class \<open>c\<close> and with \<open>repr\<close> text \<open>r\<close>; it has no items, cannot be iterated and is
  not JSON serialisable. A \<open>PDict\<close> lists its items in insertion order. Strings are
  lists of 8-bit characters, read as code points below 256; floats are not modelled.
\<close>

datatype pyval =
    PNone
  | PBool bool
  | PInt int
  | PStr string
  | PList "pyval list"
  | PDict "(pyval \<times> pyval) list"
  | PObj string string

text \<open>
  Exceptions by class, with the text \<open>str(e)\<close> gives. All of them derive from
  \<open>Exception\<close>; \<open>JSONDecodeError\<close> is the only one with a handler of its own in the
  modelled code besides \<open>AssertionError\<close>, \<open>SchemaError\<close> and \<open>ValidationError\<close>.
  \<open>OtherError c\<close> is an exception of any other class \<open>c\<close> (the failures of the
  transports and of the protocol in the MCP library, and of its validation of the
  parameters of a subprocess).
\<close>

datatype exc_class =
    ValueError | KeyError | TypeError | AttributeError | IndexError | RuntimeError
  | AssertionError | FileNotFoundError | JSONDecodeError | SchemaError | ValidationError
  | OtherError string

datatype exn = Exc exc_class string

fun exc_class_of :: "exn \<Rightarrow> exc_class" where
  "exc_class_of (Exc c m) = c"

text \<open>\<open>str(e)\<close>, as the f-strings of the source format an exception.\<close>

fun str_exn :: "exn \<Rightarrow> string" where
  "str_exn (Exc c m) = m"

definition and_then :: "exn + 'a \<Rightarrow> ('a \<Rightarrow> exn + 'b) \<Rightarrow> exn + 'b" where
  "and_then m f = (case m of Inl e \<Rightarrow> Inl e | Inr v \<Rightarrow> f v)"

fun type_name :: "pyval \<Rightarrow> string" where
  "type_name PNone = ''NoneType''"
| "type_name (PBool b) = ''bool''"
| "type_name (PInt i) = ''int''"
| "type_name (PStr s) = ''str''"
| "type_name (PList xs) = ''list''"
| "type_name (PDict d) = ''dict''"
| "type_name (PObj c r) = c"

subsection \<open>Text of values: \<open>str\<close> and \<open>repr\<close>\<close>

definition digit_char :: "nat \<Rightarrow> char" where
  "digit_char n = ''0123456789abcdef'' ! (n mod 16)"

function str_nat :: "nat \<Rightarrow> string" where
  "str_nat n = (if n < 10 then [digit_char n] else str_nat (n div 10) @ [digit_char (n mod 10)])"
  by pat_completeness auto
termination
  by (relation "measure id") auto

declare str_nat.simps [simp del]

definition str_int :: "int \<Rightarrow> string" where
  "str_int i = (if i < 0 then CHR ''-'' # str_nat (nat (- i)) else str_nat (nat i))"

definition hex2 :: "nat \<Rightarrow> string" where
  "hex2 n = [digit_char (n div 16), digit_char (n mod 16)]"

definition backslash :: char where
  "backslash = CHR 0x5C"

definition squote :: char where
  "squote = CHR 0x27"

definition dquote :: char where
  "dquote = CHR 0x22"

text \<open>
  \<open>repr\<close> of a \<open>str\<close>: single quotes, unless the text has a single quote and no double
  quote; the quote in use, the backslash, and the characters that are not printable are
  escaped.
\<close>

definition repr_char :: "char \<Rightarrow> char \<Rightarrow> string" where
  "repr_char q c =
     (let n = (of_char c :: nat) in
      if c = backslash \<or> c = q then [backslash, c]
      else if c = CHR 0x0A then [backslash, CHR ''n'']
      else if c = CHR 0x0D then [backslash, CHR ''r'']
      else if c = CHR 0x09 then [backslash, CHR ''t'']
      else if n < 32 \<or> (127 \<le> n \<and> n \<le> 160) \<or> n = 173 then [backslash, CHR ''x''] @ hex2 n
      else [c])"

definition repr_str :: "string \<Rightarrow> string" where
  "repr_str s =
     (let q = (if squote \<in> set s \<and> dquote \<notin> set s then dquote else squote)
      in [q] @ concat (map (repr_char q) s) @ [q])"

fun join :: "string \<Rightarrow> string list \<Rightarrow> string" where
  "join sep [] = []"
| "join sep [x] = x"
| "join sep (x # y # ys) = x @ sep @ join sep (y # ys)"

fun py_repr :: "pyval \<Rightarrow> string" where
  "py_repr PNone = ''None''"
| "py_repr (PBool b) = (if b then ''True'' else ''False'')"
| "py_repr (PInt i) = str_int i"
| "py_repr (PStr s) = repr_str s"
| "py_repr (PList xs) = ''['' @ join '', '' (map py_repr xs) @ '']''"
| "py_repr (PDict d) =
     ''{'' @ join '', '' (map (\<lambda>(k, v). py_repr k @ '': '' @ py_repr v) d) @ ''}''"
| "py_repr (PObj c r) = r"

fun py_str :: "pyval \<Rightarrow> string" where
  "py_str (PStr s) = s"
| "py_str v = py_repr v"

subsection \<open>Equality, membership, items\<close>

text \<open>\<open>a == b\<close>: \<open>True == 1\<close> and \<open>False == 0\<close>; dicts are equal as mappings.\<close>

fun py_eq :: "pyval \<Rightarrow> pyval \<Rightarrow> bool" where
  "py_eq (PBool b) (PInt i) = (i = (if b then 1 else 0))"
| "py_eq (PInt i) (PBool b) = (i = (if b then 1 else 0))"
| "py_eq (PList xs) (PList ys) = list_all2 py_eq xs ys"
| "py_eq (PDict xs) (PDict ys) =
     (length xs = length ys \<and>
      (\<forall>(k, v) \<in> set xs. \<exists>(k', v') \<in> set ys. py_eq k k' \<and> py_eq v v'))"
| "py_eq a b = (a = b)"

fun hashable :: "pyval \<Rightarrow> bool" where
  "hashable (PList xs) = False"
| "hashable (PDict d) = False"
| "hashable v = True"

definition unhashable :: "pyval \<Rightarrow> exn" where
  "unhashable v = Exc TypeError (''unhashable type: '' @ repr_str (type_name v))"

text \<open>The value stored under a key, \<open>None\<close> of HOL when the key is absent.\<close>

fun dict_lookup :: "(pyval \<times> pyval) list \<Rightarrow> pyval \<Rightarrow> pyval option" where
  "dict_lookup [] k = None"
| "dict_lookup ((k', v) # d) k = (if py_eq k' k then Some v else dict_lookup d k)"

text \<open>\<open>d[k] = v\<close>: an existing key keeps its place, a new one goes last.\<close>

fun dict_set :: "(pyval \<times> pyval) list \<Rightarrow> pyval \<Rightarrow> pyval \<Rightarrow> (pyval \<times> pyval) list" where
  "dict_set [] k v = [(k, v)]"
| "dict_set ((k', v') # d) k v =
     (if py_eq k' k then (k', v) # d else (k', v') # dict_set d k v)"

text \<open>\<open>t in s\<close> on strings: \<open>t\<close> occurs in \<open>s\<close>.\<close>

fun contains :: "string \<Rightarrow> string \<Rightarrow> bool" where
  "contains [] t = (t = [])"
| "contains (c # s) t = (take (length t) (c # s) = t \<or> contains s t)"

text \<open>\<open>x in c\<close>, with the \<open>TypeError\<close>s of the containers.\<close>

fun py_in :: "pyval \<Rightarrow> pyval \<Rightarrow> exn + bool" where
  "py_in x (PDict d) =
     (if hashable x then Inr (dict_lookup d x \<noteq> None) else Inl (unhashable x))"
| "py_in x (PList xs) = Inr (\<exists>e \<in> set xs. py_eq e x)"
| "py_in x (PStr s) =
     (case x of
        PStr t \<Rightarrow> Inr (contains s t)
      | _ \<Rightarrow> Inl (Exc TypeError
          (repr_str ''in <string>'' @ '' requires string as left operand, not '' @ type_name x)))"
| "py_in x c =
     Inl (Exc TypeError (''argument of type '' @ repr_str (type_name c) @ '' is not iterable''))"

text \<open>\<open>c[k]\<close> for a string key \<open>k\<close>.\<close>

fun py_getitem :: "pyval \<Rightarrow> string \<Rightarrow> exn + pyval" where
  "py_getitem (PDict d) k =
     (case dict_lookup d (PStr k) of
        Some v \<Rightarrow> Inr v
      | None \<Rightarrow> Inl (Exc KeyError (repr_str k)))"
| "py_getitem (PList xs) k =
     Inl (Exc TypeError ''list indices must be integers or slices, not str'')"
| "py_getitem (PStr s) k = Inl (Exc TypeError (''string indices must be integers, not '' @ repr_str ''str''))"
| "py_getitem c k =
     Inl (Exc TypeError (repr_str (type_name c) @ '' object is not subscriptable''))"

definition no_attribute :: "pyval \<Rightarrow> string \<Rightarrow> exn" where
  "no_attribute v a =
     Exc AttributeError (repr_str (type_name v) @ '' object has no attribute '' @ repr_str a)"

text \<open>\<open>c.get(k, default)\<close> for a string key: only a dict has the method.\<close>

fun py_get :: "pyval \<Rightarrow> string \<Rightarrow> pyval \<Rightarrow> exn + pyval" where
  "py_get (PDict d) k dflt =
     Inr (case dict_lookup d (PStr k) of Some v \<Rightarrow> v | None \<Rightarrow> dflt)"
| "py_get c k dflt = Inl (no_attribute c ''get'')"

text \<open>\<open>c.items()\<close>.\<close>

fun py_items :: "pyval \<Rightarrow> exn + (pyval \<times> pyval) list" where
  "py_items (PDict d) = Inr d"
| "py_items c = Inl (no_attribute c ''items'')"

text \<open>What \<open>for x in c\<close> runs through: a dict gives its keys, a string its characters.\<close>

fun py_iter :: "pyval \<Rightarrow> exn + pyval list" where
  "py_iter (PList xs) = Inr xs"
| "py_iter (PDict d) = Inr (map fst d)"
| "py_iter (PStr s) = Inr (map (\<lambda>c. PStr [c]) s)"
| "py_iter c = Inl (Exc TypeError (repr_str (type_name c) @ '' object is not iterable''))"

section \<open>The schema format check (validate_tools.py)\<close>

text \<open>
  The dict \<open>check_mcp_format\<close> returns. The early return for a tool without parameters
  has no \<open>parameters\<close> entry.
\<close>

record format_result =
  valid :: bool
  issues :: "string list"
  suggestions :: "string list"
  parameters :: "pyval option"

text \<open>The loop over the three top-level fields; the pair is (issues, suggestions).\<close>

fun check_top_level ::
  "pyval \<Rightarrow> string list \<Rightarrow> string list \<times> string list \<Rightarrow> exn + string list \<times> string list" where
  "check_top_level params_schema [] acc = Inr acc"
| "check_top_level params_schema (field # rest) (iss, sug) =
     and_then (py_in (PStr field) params_schema) (\<lambda>present.
       check_top_level params_schema rest
         (if \<not> present
          then (iss @ [''Missing top-level field: '' @ field],
                sug @ [''Please add the '' @ field @ '' field in parameters.''])
          else (iss, sug)))"

text \<open>The loop over the items of \<open>properties\<close>.\<close>

fun check_property_types ::
  "(pyval \<times> pyval) list \<Rightarrow> string list \<times> string list \<Rightarrow> exn + string list \<times> string list" where
  "check_property_types [] acc = Inr acc"
| "check_property_types ((name, prop) # items) (iss, sug) =
     and_then (py_in (PStr ''type'') prop) (\<lambda>present.
       check_property_types items
         (if \<not> present
          then (iss @ [''Parameter '' @ py_str name @ '' is missing the type field.''],
                sug @ [''Please add the type field for parameter '' @ py_str name @ ''.''])
          else (iss, sug)))"

text \<open>The loop over \<open>required\<close>.\<close>

fun check_required ::
  "pyval \<Rightarrow> pyval list \<Rightarrow> string list \<times> string list \<Rightarrow> exn + string list \<times> string list" where
  "check_required params_schema [] acc = Inr acc"
| "check_required params_schema (req # reqs) (iss, sug) =
     and_then (py_get params_schema ''properties'' (PDict [])) (\<lambda>props.
     and_then (py_in req props) (\<lambda>present.
       check_required params_schema reqs
         (if \<not> present
          then (iss @ [''Required parameter '' @ py_str req @ '' is not defined in properties.''],
                sug @ [''Please add the required parameter '' @ py_str req @ '' in properties.''])
          else (iss, sug))))"

text \<open>
  \<open>check_mcp_format\<close>, applied to the \<open>parameters\<close> attribute of the tool (\<open>None\<close> of
  HOL when the tool has no such attribute, which \<open>getattr\<close> turns into Python's
  \<open>None\<close>).
\<close>

definition check_mcp_format :: "pyval option \<Rightarrow> exn + format_result" where
  "check_mcp_format attr =
     (let params_schema = (case attr of None \<Rightarrow> PNone | Some v \<Rightarrow> v) in
      if params_schema = PNone
      then Inr \<lparr>valid = False,
                issues = [''No parameters attribute found, unable to check parameter format.''],
                suggestions = [''Please add a parameters attribute to the tool.''],
                parameters = None\<rparr>
      else
        and_then (check_top_level params_schema [''type'', ''properties'', ''required''] ([], []))
          (\<lambda>acc1.
        and_then (py_in (PStr ''properties'') params_schema) (\<lambda>has_props.
        and_then
          (if has_props
           then and_then (py_getitem params_schema ''properties'') (\<lambda>props.
                and_then (py_items props) (\<lambda>items. check_property_types items acc1))
           else Inr acc1) (\<lambda>acc2.
        and_then (py_in (PStr ''required'') params_schema) (\<lambda>has_req.
        and_then
          (if has_req
           then and_then (py_get params_schema ''required'' (PList [])) (\<lambda>reqs.
                and_then (py_iter reqs) (\<lambda>rs. check_required params_schema rs acc2))
           else Inr acc2) (\<lambda>(iss, sug).
        Inr \<lparr>valid = (length iss = 0), issues = iss, suggestions = sug,
             parameters = Some params_schema\<rparr>))))))"

text \<open>Tests of the type of a value.\<close>

fun is_dict :: "pyval \<Rightarrow> bool" where
  "is_dict (PDict d) = True"
| "is_dict v = False"

fun is_str :: "pyval \<Rightarrow> bool" where
  "is_str (PStr s) = True"
| "is_str v = False"

fun is_list :: "pyval \<Rightarrow> bool" where
  "is_list (PList xs) = True"
| "is_list v = False"

text \<open>
  The values of the \<open>parameters\<close> attribute on which the check runs to its end. A
  container is a value with a membership test for strings that can also be iterated. In
  a dict, \<open>properties\<close> when present must have \<open>items\<close> whose values are containers,
  and \<open>required\<close> when present must be iterable, with elements that can be looked up
  in a dict. A list or a string passes when the two keys that are read further do not
  occur in it.
\<close>

definition container :: "pyval \<Rightarrow> bool" where
  "container v = (is_dict v \<or> is_list v \<or> is_str v)"

definition properties_ok :: "(pyval \<times> pyval) list \<Rightarrow> bool" where
  "properties_ok d =
     (case dict_lookup d (PStr ''properties'') of
        None \<Rightarrow> True
      | Some p \<Rightarrow>
          (case p of PDict items \<Rightarrow> list_all (\<lambda>(k, v). container v) items | _ \<Rightarrow> False))"

definition required_ok :: "(pyval \<times> pyval) list \<Rightarrow> bool" where
  "required_ok d =
     (case dict_lookup d (PStr ''required'') of
        None \<Rightarrow> True
      | Some r \<Rightarrow>
          (case r of
             PList rs \<Rightarrow> list_all hashable rs
           | PDict rd \<Rightarrow> list_all (\<lambda>(k, v). hashable k) rd
           | PStr t \<Rightarrow> True
           | _ \<Rightarrow> False))"

definition checkable :: "pyval \<Rightarrow> bool" where
  "checkable s =
     (case s of
        PNone \<Rightarrow> True
      | PDict d \<Rightarrow> properties_ok d \<and> required_ok d
      | PList xs \<Rightarrow> PStr ''properties'' \<notin> set xs \<and> PStr ''required'' \<notin> set xs
      | PStr t \<Rightarrow> \<not> contains t ''properties'' \<and> \<not> contains t ''required''
      | _ \<Rightarrow> False)"

text \<open>The three schemas the specification names, and one whose \<open>properties\<close> is a list.\<close>

definition schema_valid :: pyval where
  "schema_valid = PDict [(PStr ''type'', PStr ''object''),
     (PStr ''properties'', PDict [(PStr ''q'', PDict [(PStr ''type'', PStr ''string'')])]),
     (PStr ''required'', PList [PStr ''q''])]"

definition schema_untyped_property :: pyval where
  "schema_untyped_property = PDict [(PStr ''type'', PStr ''object''),
     (PStr ''properties'', PDict [(PStr ''q'', PDict [])]),
     (PStr ''required'', PList [PStr ''q''])]"

definition schema_undefined_required :: pyval where
  "schema_undefined_required =
     PDict [(PStr ''required'', PList [PStr ''missing'']), (PStr ''properties'', PDict [])]"

definition schema_list_properties :: pyval where
  "schema_list_properties = PDict [(PStr ''type'', PStr ''object''),
     (PStr ''properties'',
      PList [PDict [(PStr ''name'', PStr ''q''), (PStr ''type'', PStr ''string'')]]),
     (PStr ''required'', PList [PStr ''q''])]"



section \<open>Configuration shape check (mcp_manager.py)\<close>

text \<open>Truth value of an object, as \<open>if x\<close> and \<open>not x\<close> read it.\<close>

fun py_truthy :: "pyval \<Rightarrow> bool" where
  "py_truthy PNone = False"
| "py_truthy (PBool b) = b"
| "py_truthy (PInt i) = (i \<noteq> 0)"
| "py_truthy (PStr s) = (s \<noteq> [])"
| "py_truthy (PList xs) = (xs \<noteq> [])"
| "py_truthy (PDict d) = (d \<noteq> [])"
| "py_truthy (PObj c r) = True"

text \<open>
  The checks \<open>is_valid_mcp_servers\<close> makes on one entry of \<open>mcpServers\<close>; each
  \<open>False\<close> is one \<open>return False\<close> of the loop body, in the order of the source.
\<close>

fun check_server :: "pyval \<Rightarrow> bool" where
  "check_server (PDict server) =
     (if (case dict_lookup server (PStr ''command'') of
            None \<Rightarrow> False
          | Some command \<Rightarrow>
              \<not> is_str command \<or>
              (case dict_lookup server (PStr ''args'') of
                 None \<Rightarrow> True
               | Some args \<Rightarrow> \<not> is_list args))
      then False
      else if (case dict_lookup server (PStr ''url'') of
                 None \<Rightarrow> False
               | Some url \<Rightarrow>
                   \<not> is_str url \<or>
                   (case dict_lookup server (PStr ''headers'') of
                      None \<Rightarrow> False
                    | Some headers \<Rightarrow> \<not> is_dict headers))
      then False
      else if (case dict_lookup server (PStr ''env'') of
                 None \<Rightarrow> False
               | Some env \<Rightarrow> \<not> is_dict env)
      then False
      else True)"
| "check_server v = False"

text \<open>The loop \<open>for key in mcp_servers\<close>: the first entry that fails ends it.\<close>

fun check_servers :: "(pyval \<times> pyval) list \<Rightarrow> bool" where
  "check_servers [] = True"
| "check_servers ((key, server) # rest) =
     (if \<not> check_server server then False else check_servers rest)"

fun is_valid_mcp_servers :: "pyval \<Rightarrow> bool" where
  "is_valid_mcp_servers (PDict config) =
     (case dict_lookup config (PStr ''mcpServers'') of
        None \<Rightarrow> False
      | Some (PDict mcp_servers) \<Rightarrow> check_servers mcp_servers
      | Some v \<Rightarrow> False)"
| "is_valid_mcp_servers v = False"

section \<open>Sessions, clients and the registry (mcp_manager.py)\<close>

text \<open>
  What a server sends back. A content part of a tool result is text or something else;
  the contents of a resource likewise.
\<close>

datatype content = TextContent string | OtherContent

datatype resource_contents = TextResourceContents string | BlobResourceContents

text \<open>A tool as \<open>list_tools\<close> reports it; the description is a \<open>str\<close> or \<open>None\<close>.\<close>

record mcp_tool =
  mt_name :: string
  mt_description :: pyval
  mt_inputSchema :: "(pyval \<times> pyval) list"

text \<open>
  A live \<open>ClientSession\<close>, by what its server answers: \<open>s_ping\<close> is the exception
  \<open>send_ping\<close> raises, if any; the other fields are the results of the calls of the
  same names (resources and templates by their \<open>str\<close> text).
\<close>

record session =
  s_ping :: "exn option"
  s_call_tool :: "string \<Rightarrow> pyval \<Rightarrow> exn + content list"
  s_list_resources :: "exn + string list"
  s_read_resource :: "pyval \<Rightarrow> exn + resource_contents list"
  s_list_resource_templates :: "exn + string list"

text \<open>\<open>MCPClient\<close>, with the fields \<open>__init__\<close> sets.\<close>

record client =
  c_session :: "session option"
  c_tools :: "mcp_tool list option"
  c_resources :: bool
  c_last_mcp_server_name :: "pyval option"
  c_last_mcp_server :: "pyval option"
  c_client_id :: "string option"

definition MCPClient :: client where
  "MCPClient = \<lparr>c_session = None, c_tools = None, c_resources = False,
     c_last_mcp_server_name = None, c_last_mcp_server = None, c_client_id = None\<rparr>"

text \<open>\<open>ToolClass\<close>, the tool object \<open>create_tool_class\<close> builds.\<close>

record tool =
  t_name :: string
  t_description :: pyval
  t_parameters :: pyval
  t_client_id :: string
  t_tool_name :: string

datatype transport = Stdio | Sse | StreamableHttp

text \<open>
  The state of the process: the registry's \<open>clients\<close> dict, the \<open>_config_cache\<close> of
  mcp_utils.py, and the world around them. \<open>connects\<close> lists what the connection
  attempts still to come will give, in order (an exception, or the session and its tools
  once the transport is open, the handshake done and the tools listed); an attempt made
  when the list is empty fails. \<open>attempts\<close> logs the attempts made: server name,
  transport and descriptor. \<open>uuid_source\<close> are the values \<open>uuid4\<close> gives, of which
  \<open>uuid_drawn\<close> have been taken. \<open>files\<close> maps an absolute path to the text of the
  file there, and \<open>cwd\<close> is the working directory.
\<close>

record proc =
  clients :: "string \<rightharpoonup> client"
  config_cache :: "string \<rightharpoonup> (string \<times> tool) list"
  connects :: "(exn + session \<times> mcp_tool list) list"
  attempts :: "(pyval \<times> transport \<times> pyval) list"
  uuid_source :: "nat \<Rightarrow> string"
  uuid_drawn :: nat
  files :: "string \<rightharpoonup> string"
  cwd :: string

definition connection_refused :: exn where
  "connection_refused = Exc (OtherError ''ConnectionError'') ''Connection refused''"

text \<open>One connection attempt: it is logged, and the world gives its outcome.\<close>

definition attempt_connection ::
  "pyval \<Rightarrow> transport \<Rightarrow> pyval \<Rightarrow> proc \<Rightarrow> (exn + session \<times> mcp_tool list) \<times> proc" where
  "attempt_connection mcp_server_name kind mcp_server st =
     (let st1 = st\<lparr>attempts := attempts st @ [(mcp_server_name, kind, mcp_server)]\<rparr> in
      case connects st1 of
        [] \<Rightarrow> (Inl connection_refused, st1)
      | outcome # rest \<Rightarrow> (outcome, st1\<lparr>connects := rest\<rparr>))"

text \<open>
  \<open>datetime.timedelta(seconds=x)\<close> takes a number; anything else is a \<open>TypeError\<close>.
\<close>

definition timedelta_seconds :: "pyval \<Rightarrow> exn option" where
  "timedelta_seconds x =
     (case x of
        PInt i \<Rightarrow> None
      | PBool b \<Rightarrow> None
      | _ \<Rightarrow>
          Some (Exc TypeError
            (''unsupported type for timedelta seconds component: '' @ type_name x)))"

text \<open>
  \<open>StdioServerParameters(command, args, env)\<close> validates its fields: the command is a
  string, the arguments a list of strings, the environment \<open>None\<close> or a dict from
  strings to strings. Otherwise it raises the \<open>ValidationError\<close> of pydantic, whose
  text lists the fields refused; only its heading is kept here.
\<close>

definition stdio_parameters_ok :: "pyval \<Rightarrow> pyval \<Rightarrow> pyval \<Rightarrow> bool" where
  "stdio_parameters_ok command args env =
     (is_str command \<and>
      (case args of PList xs \<Rightarrow> list_all is_str xs | _ \<Rightarrow> False) \<and>
      (case env of
         PNone \<Rightarrow> True
       | PDict d \<Rightarrow> list_all (\<lambda>(k, v). is_str k \<and> is_str v) d
       | _ \<Rightarrow> False))"

definition stdio_parameters_error :: exn where
  "stdio_parameters_error =
     Exc (OtherError ''pydantic_core.ValidationError'')
       ''validation error for StdioServerParameters''"

text \<open>
  The branch of \<open>connection_server\<close> a descriptor takes, with what each branch does
  before it opens the transport: a descriptor with \<open>url\<close> goes to streamable HTTP
  (where the read timeout becomes a \<open>timedelta\<close>) or to SSE, any other one to the
  subprocess branch, which reads \<open>command\<close> and \<open>args\<close> and builds the parameters
  of the subprocess.
\<close>

definition choose_transport :: "pyval \<Rightarrow> exn + transport" where
  "choose_transport mcp_server =
     and_then (py_in (PStr ''url'') mcp_server) (\<lambda>has_url.
       if has_url
       then and_then (py_get mcp_server ''url'' PNone) (\<lambda>url.
            and_then (py_get mcp_server ''sse_read_timeout'' (PInt 300)) (\<lambda>sse_read_timeout.
            and_then (py_get mcp_server ''type'' (PStr ''sse'')) (\<lambda>ty.
              if py_eq ty (PStr ''streamable-http'')
              then (case timedelta_seconds sse_read_timeout of
                      Some e \<Rightarrow> Inl e
                    | None \<Rightarrow> Inr StreamableHttp)
              else and_then
                (py_get mcp_server ''headers''
                   (PDict [(PStr ''Accept'', PStr ''text/event-stream'')]))
                (\<lambda>headers. Inr Sse))))
       else and_then (py_getitem mcp_server ''command'') (\<lambda>command.
            and_then (py_getitem mcp_server ''args'') (\<lambda>args.
            and_then (py_get mcp_server ''env'' PNone) (\<lambda>env.
              if stdio_parameters_ok command args env then Inr Stdio
              else Inl stdio_parameters_error))))"

text \<open>
  \<open>connection_server\<close>. The client it returns is \<open>self\<close> after the call; when the
  call raises, the exception is logged and raised again.
\<close>

definition connection_server ::
  "client \<Rightarrow> pyval \<Rightarrow> pyval \<Rightarrow> proc \<Rightarrow> (exn + client) \<times> proc" where
  "connection_server self mcp_server_name mcp_server st =
     (let self1 = self\<lparr>c_last_mcp_server_name := Some mcp_server_name,
                        c_last_mcp_server := Some mcp_server\<rparr> in
      case choose_transport mcp_server of
        Inl e \<Rightarrow> (Inl e, st)
      | Inr kind \<Rightarrow>
          (case attempt_connection mcp_server_name kind mcp_server st of
             (Inl e, st1) \<Rightarrow> (Inl e, st1)
           | (Inr (sess, list_tools), st1) \<Rightarrow>
               (Inr (self1\<lparr>c_session := Some sess, c_tools := Some list_tools\<rparr>), st1)))"

text \<open>
  \<open>reconnect\<close>: a new client under the same identifier, connected with the name and
  descriptor the old one was connected with.
\<close>

definition reconnect :: "client \<Rightarrow> proc \<Rightarrow> (exn + client) \<times> proc" where
  "reconnect self st =
     (case c_client_id self of
        None \<Rightarrow>
          (Inl (Exc RuntimeError
             (''Cannot reconnect: client_id is None. This usually means the client was '' @
              ''not properly registered in MCPManager.'')), st)
      | Some cid \<Rightarrow>
          connection_server (MCPClient\<lparr>c_client_id := Some cid\<rparr>)
            (case c_last_mcp_server_name self of None \<Rightarrow> PNone | Some n \<Rightarrow> n)
            (case c_last_mcp_server self of None \<Rightarrow> PNone | Some s \<Rightarrow> s) st)"

text \<open>The three ways \<open>execute_function\<close> serves a call once the session is known alive.\<close>

definition list_resources_call :: "client \<Rightarrow> string" where
  "list_resources_call self =
     (case c_session self of
        None \<Rightarrow> ''Session is not alive''
      | Some sess \<Rightarrow>
          (case s_list_resources sess of
             Inl e \<Rightarrow> ''Error: '' @ str_exn e
           | Inr resources \<Rightarrow>
               if resources \<noteq> [] then join [CHR 0x0A, CHR 0x0A] resources
               else ''No resources found''))"

definition text_resources :: "resource_contents list \<Rightarrow> string list" where
  "text_resources contents =
     concat (map (\<lambda>r. case r of TextResourceContents t \<Rightarrow> [t] | BlobResourceContents \<Rightarrow> [])
       contents)"

definition read_resource_call :: "client \<Rightarrow> pyval \<Rightarrow> string" where
  "read_resource_call self tool_args =
     (case py_get tool_args ''uri'' PNone of
        Inl e \<Rightarrow> ''Error: '' @ str_exn e
      | Inr uri \<Rightarrow>
          if \<not> py_truthy uri then ''Error: '' @ ''URI is required for read_resource''
          else
            (case c_session self of
               None \<Rightarrow> ''Session is not alive''
             | Some sess \<Rightarrow>
                 (case s_read_resource sess uri of
                    Inl e \<Rightarrow> ''Error: '' @ str_exn e
                  | Inr contents \<Rightarrow>
                      if text_resources contents \<noteq> []
                      then join [CHR 0x0A, CHR 0x0A] (text_resources contents)
                      else ''Failed to read resource'')))"

definition text_parts :: "content list \<Rightarrow> string list" where
  "text_parts cs =
     concat (map (\<lambda>c. case c of TextContent t \<Rightarrow> [t] | OtherContent \<Rightarrow> []) cs)"

definition call_tool_call :: "client \<Rightarrow> string \<Rightarrow> pyval \<Rightarrow> exn + string" where
  "call_tool_call self tool_name tool_args =
     (case c_session self of
        None \<Rightarrow> Inr ''Session is not alive''
      | Some sess \<Rightarrow>
          (case s_call_tool sess tool_name tool_args of
             Inl e \<Rightarrow> Inl e
           | Inr response \<Rightarrow>
               if text_parts response \<noteq> []
               then Inr (join [CHR 0x0A, CHR 0x0A] (text_parts response))
               else Inr ''execute error''))"

definition dispatch :: "client \<Rightarrow> string \<Rightarrow> pyval \<Rightarrow> exn + string" where
  "dispatch self tool_name tool_args =
     (if tool_name = ''list_resources'' then Inr (list_resources_call self)
      else if tool_name = ''read_resource'' then Inr (read_resource_call self tool_args)
      else call_tool_call self tool_name tool_args)"

text \<open>The exception the liveness probe raises, if any; no session, no probe.\<close>

definition probe :: "client \<Rightarrow> exn option" where
  "probe self = (case c_session self of None \<Rightarrow> None | Some sess \<Rightarrow> s_ping sess)"

lemma attempt_connection_connects:
  "attempt_connection n k s st = (Inr r, st1) \<Longrightarrow> length (connects st1) < length (connects st)"
  by (auto simp: attempt_connection_def Let_def split: list.splits)

lemma connection_server_connects:
  "connection_server self n s st = (Inr c, st1) \<Longrightarrow> length (connects st1) < length (connects st)"
  by (auto simp: connection_server_def Let_def split: sum.splits prod.splits
      dest: attempt_connection_connects)

lemma reconnect_connects:
  "reconnect self st = (Inr c, st1) \<Longrightarrow> length (connects st1) < length (connects st)"
  by (auto simp: reconnect_def split: option.splits dest: connection_server_connects)

text \<open>
  \<open>execute_function\<close>. When the probe raises, the client is replaced under its
  identifier and the call is made again on the replacement, which probes its own session
  in turn; every exception of that path comes back as text.
\<close>

function execute_function :: "client \<Rightarrow> string \<Rightarrow> pyval \<Rightarrow> proc \<Rightarrow> (exn + string) \<times> proc" where
  "execute_function self tool_name tool_args st =
     (case probe self of
        Some e \<Rightarrow>
          (case c_client_id self of
             None \<Rightarrow> (Inr ''Session reconnect (client creation) exception: client_id is None'', st)
           | Some cid \<Rightarrow>
               (case reconnect self st of
                  (Inl e3, st1) \<Rightarrow>
                    (Inr (''Session reconnect (client creation) exception: '' @ str_exn e3), st1)
                | (Inr new_client, st1) \<Rightarrow>
                    (case execute_function new_client tool_name tool_args
                            (st1\<lparr>clients := (clients st1)(cid \<mapsto> new_client)\<rparr>) of
                       (Inl e3, st2) \<Rightarrow>
                         (Inr (''Session reconnect (client creation) exception: '' @ str_exn e3),
                          st2)
                     | (Inr result, st2) \<Rightarrow> (Inr result, st2))))
      | None \<Rightarrow> (dispatch self tool_name tool_args, st))"
  by pat_completeness auto
termination
  by (relation "measure (\<lambda>(self, tool_name, tool_args, st). length (connects st))")
    (auto dest: reconnect_connects [OF sym])

declare execute_function.simps [simp del]

section \<open>Registering the tools of a configuration (mcp_manager.py)\<close>

text \<open>
  What the code takes from its libraries and from the interpreter: \<open>json.loads\<close>
  (\<open>None\<close> of HOL for a \<open>JSONDecodeError\<close>), \<open>jsonschema.validate\<close> of the empty
  instance against a schema (the exception it raises, if any), and the text printed for
  a set of strings, whose order the interpreter chooses (\<open>set_repr\<close> is given the
  elements without repetition).
\<close>

record lib =
  json_loads :: "string \<Rightarrow> pyval option"
  jsonschema_validate :: "pyval \<Rightarrow> exn option"
  set_repr :: "string list \<Rightarrow> string"

text \<open>\<open>str.isspace\<close> on code points below 256, and \<open>str.strip\<close>.\<close>

definition is_space :: "char \<Rightarrow> bool" where
  "is_space c = ((of_char c :: nat) \<in> {9, 10, 11, 12, 13, 28, 29, 30, 31, 32, 133, 160})"

definition strip :: "string \<Rightarrow> string" where
  "strip s = rev (dropWhile is_space (rev (dropWhile is_space s)))"

fun first_unhashable :: "pyval list \<Rightarrow> pyval option" where
  "first_unhashable [] = None"
| "first_unhashable (x # xs) = (if hashable x then first_unhashable xs else Some x)"

text \<open>
  \<open>is_tool_schema\<close> on the dict \<open>BaseTool.__init__\<close> builds from a name, a description
  and parameters. A failed assertion gives \<open>False\<close>; \<open>set(required)\<close> raises on an
  unhashable element, which no handler of the function catches.
\<close>

definition is_tool_schema :: "lib \<Rightarrow> string \<Rightarrow> pyval \<Rightarrow> pyval \<Rightarrow> exn + bool" where
  "is_tool_schema L name description params =
     (if strip name = [] then Inr False
      else if \<not> is_str description then Inr False
      else
        (case params of
           PDict d \<Rightarrow>
             (case (dict_lookup d (PStr ''type''), dict_lookup d (PStr ''properties''),
                    dict_lookup d (PStr ''required'')) of
                (Some ty, Some props, Some req) \<Rightarrow>
                  if \<not> list_all (\<lambda>k. k \<in> {PStr ''type'', PStr ''properties'', PStr ''required''})
                         (map fst d)
                  then Inr False
                  else if \<not> py_eq ty (PStr ''object'') then Inr False
                  else
                    (case props of
                       PDict pd \<Rightarrow>
                         (case req of
                            PList rs \<Rightarrow>
                              (case first_unhashable rs of
                                 Some u \<Rightarrow> Inl (unhashable u)
                               | None \<Rightarrow>
                                   if \<not> list_all (\<lambda>r. dict_lookup pd r \<noteq> None) rs
                                   then Inr False
                                   else
                                     (case jsonschema_validate L params of
                                        None \<Rightarrow> Inr True
                                      | Some e \<Rightarrow>
                                          if exc_class_of e = SchemaError then Inr False
                                          else if exc_class_of e = ValidationError then Inr True
                                          else Inl e))
                          | _ \<Rightarrow> Inr False)
                     | _ \<Rightarrow> Inr False)
              | _ \<Rightarrow> Inr False)
         | _ \<Rightarrow> Inr False))"

text \<open>\<open>create_tool_class\<close>: the class, and \<open>BaseTool.__init__\<close> on its instance.\<close>

definition create_tool_class ::
  "lib \<Rightarrow> string \<Rightarrow> string \<Rightarrow> string \<Rightarrow> pyval \<Rightarrow> pyval \<Rightarrow> exn + tool" where
  "create_tool_class L register_name register_client_id tool_name tool_desc tool_parameters =
     (let self = \<lparr>t_name = register_name, t_description = tool_desc,
                  t_parameters = tool_parameters, t_client_id = register_client_id,
                  t_tool_name = tool_name\<rparr> in
      if register_name = []
      then Inl (Exc ValueError
        (''You must set '' @ register_name @ ''_Class.name, either by '' @
         ''@register_tool(name=...) or explicitly setting '' @ register_name @ ''_Class.name''))
      else if is_dict tool_parameters
      then
        (case is_tool_schema L register_name tool_desc tool_parameters of
           Inl e \<Rightarrow> Inl e
         | Inr ok \<Rightarrow>
             if \<not> ok
             then Inl (Exc ValueError
               (''The parameters, when provided as a dict, must confirm to a valid '' @
                ''openai-compatible JSON schema.''))
             else Inr self)
      else Inr self)"

text \<open>
  The body of \<open>for tool in client.tools\<close>. The fields that are missing form a set,
  printed in the message as the interpreter prints sets.
\<close>

definition missing_fields :: "(pyval \<times> pyval) list \<Rightarrow> string list" where
  "missing_fields params =
     filter (\<lambda>f. dict_lookup params (PStr f) = None) [''type'', ''properties'', ''required'']"

definition register_tool :: "lib \<Rightarrow> string \<Rightarrow> string \<Rightarrow> mcp_tool \<Rightarrow> exn + tool" where
  "register_tool L server_name client_id mt =
     (let params0 = mt_inputSchema mt;
          params = (if dict_lookup params0 (PStr ''required'') = None
                    then dict_set params0 (PStr ''required'') (PList [])
                    else params0)
      in case (dict_lookup params (PStr ''type''), dict_lookup params (PStr ''properties''),
               dict_lookup params (PStr ''required'')) of
           (Some ty, Some props, Some req) \<Rightarrow>
             create_tool_class L (server_name @ ''-'' @ mt_name mt) client_id (mt_name mt)
               (mt_description mt)
               (PDict [(PStr ''type'', ty), (PStr ''properties'', props), (PStr ''required'', req)])
         | _ \<Rightarrow>
             Inl (Exc ValueError
               (''Missing required fields in schema: '' @ set_repr L (missing_fields params))))"

fun register_tools ::
  "lib \<Rightarrow> string \<Rightarrow> string \<Rightarrow> mcp_tool list \<Rightarrow> tool list \<Rightarrow> exn + tool list" where
  "register_tools L server_name client_id [] acc = Inr acc"
| "register_tools L server_name client_id (mt # mts) acc =
     (case register_tool L server_name client_id mt of
        Inl e \<Rightarrow> Inl e
      | Inr agent_tool \<Rightarrow> register_tools L server_name client_id mts (acc @ [agent_tool]))"

text \<open>The two tools added for a client that has resources.\<close>

definition list_resources_desc :: string where
  "list_resources_desc =
     ''Servers expose a list of concrete resources through this tool. '' @
     ''By invoking it, you can discover the available resources and obtain resource '' @
     ''templates, which help clients understand how to construct valid URIs. '' @
     ''These URI formats will be used as input parameters for the read_resource function. ''"

definition read_resource_desc :: string where
  "read_resource_desc =
     ''Request to access a resource provided by a connected MCP server. Resources '' @
     ''represent data sources that can be used as context, such as files, API responses, '' @
     ''or system information.''"

definition read_resource_params :: pyval where
  "read_resource_params =
     PDict [(PStr ''type'', PStr ''object''),
       (PStr ''properties'',
        PDict [(PStr ''uri'',
          PDict [(PStr ''type'', PStr ''string''),
            (PStr ''description'',
             PStr ''The URI identifying the specific resource to access'')])]),
       (PStr ''required'', PList [PStr ''uri''])]"

definition resource_tools ::
  "lib \<Rightarrow> string \<Rightarrow> string \<Rightarrow> client \<Rightarrow> tool list \<Rightarrow> exn + tool list" where
  "resource_tools L server_name client_id c acc =
     (case create_tool_class L (server_name @ ''-'' @ ''list_resources'') client_id
             ''list_resources'' (PStr list_resources_desc)
             (PDict [(PStr ''type'', PStr ''object''), (PStr ''properties'', PDict []),
                (PStr ''required'', PList [])]) of
        Inl e \<Rightarrow> Inl e
      | Inr list_resources_agent_tool \<Rightarrow>
          (let resources_template_str =
                 (case c_session c of
                    None \<Rightarrow> []
                  | Some sess \<Rightarrow>
                      (case s_list_resource_templates sess of
                         Inl e \<Rightarrow> []
                       | Inr templates \<Rightarrow> join [CHR 0x0A] templates));
               tool_desc =
                 (if resources_template_str \<noteq> []
                  then read_resource_desc @ [CHR 0x0A] @ ''Resource Templates:'' @ [CHR 0x0A] @
                       resources_template_str
                  else read_resource_desc)
           in case create_tool_class L (server_name @ ''-'' @ ''read_resource'') client_id
                     ''read_resource'' (PStr tool_desc) read_resource_params of
                Inl e \<Rightarrow> Inl e
              | Inr read_resource_agent_tool \<Rightarrow>
                  Inr (acc @ [list_resources_agent_tool, read_resource_agent_tool])))"

text \<open>
  The body of the loop of \<open>init_config_async\<close> over the entries of
  \<open>mcpServers\<close>: connect, register the client under a fresh identifier, then register
  its tools.
\<close>

definition init_server ::
  "lib \<Rightarrow> pyval \<Rightarrow> pyval \<Rightarrow> tool list \<Rightarrow> proc \<Rightarrow> (exn + tool list) \<times> proc" where
  "init_server L key server acc st =
     (case connection_server MCPClient key server st of
        (Inl e, st1) \<Rightarrow> (Inl e, st1)
      | (Inr c, st1) \<Rightarrow>
          (case key of
             PStr server_name \<Rightarrow>
               (let client_id = server_name @ ''_'' @ uuid_source st1 (uuid_drawn st1);
                    c1 = c\<lparr>c_client_id := Some client_id\<rparr>;
                    st2 = st1\<lparr>uuid_drawn := Suc (uuid_drawn st1),
                              clients := (clients st1)(client_id \<mapsto> c1)\<rparr>
                in case register_tools L server_name client_id
                          (case c_tools c1 of None \<Rightarrow> [] | Some ts \<Rightarrow> ts) acc of
                     Inl e \<Rightarrow> (Inl e, st2)
                   | Inr acc1 \<Rightarrow>
                       (case (if c_resources c1
                              then resource_tools L server_name client_id c1 acc1
                              else Inr acc1) of
                          Inl e \<Rightarrow> (Inl e, st2)
                        | Inr acc2 \<Rightarrow> (Inr acc2, st2)))
           | _ \<Rightarrow>
               (Inl (Exc TypeError
                  (''unsupported operand type(s) for +: '' @ repr_str (type_name key) @
                   '' and '' @ repr_str ''str'')), st1)))"

text \<open>
  The loop itself. An exception ends it; what was stored in \<open>clients\<close> before stays
  there.
\<close>

fun init_servers ::
  "lib \<Rightarrow> (pyval \<times> pyval) list \<Rightarrow> tool list \<Rightarrow> proc \<Rightarrow> (exn + tool list) \<times> proc" where
  "init_servers L [] acc st = (Inr acc, st)"
| "init_servers L ((key, server) # rest) acc st =
     (case init_server L key server acc st of
        (Inl e, st1) \<Rightarrow> (Inl e, st1)
      | (Inr acc1, st1) \<Rightarrow> init_servers L rest acc1 st1)"

text \<open>
  \<open>init_config_async\<close> runs only on a configuration that passed the shape check, where
  \<open>config['mcpServers']\<close> is a dict.
\<close>

definition mcp_servers_of :: "pyval \<Rightarrow> (pyval \<times> pyval) list" where
  "mcp_servers_of config =
     (case config of
        PDict d \<Rightarrow>
          (case dict_lookup d (PStr ''mcpServers'') of Some (PDict servers) \<Rightarrow> servers | _ \<Rightarrow> [])
      | _ \<Rightarrow> [])"

definition init_config_async :: "lib \<Rightarrow> pyval \<Rightarrow> proc \<Rightarrow> (exn + tool list) \<times> proc" where
  "init_config_async L config st = init_servers L (mcp_servers_of config) [] st"

definition initConfig :: "lib \<Rightarrow> pyval \<Rightarrow> proc \<Rightarrow> (exn + tool list) \<times> proc" where
  "initConfig L config st =
     (if \<not> is_valid_mcp_servers config
      then (Inl (Exc ValueError ''Config of mcpservers is not valid''), st)
      else init_config_async L config st)"

section \<open>JSON text (the json module)\<close>

text \<open>
  \<open>json.dumps(obj, ensure_ascii=False)\<close>: a string is quoted, with the quote, the
  backslash and the control characters escaped; the items of lists and dicts are
  separated by a comma and a space, key and value by a colon and a space; a key that is
  not a string is written as the text of its value.
\<close>

definition json_escape :: "char \<Rightarrow> string" where
  "json_escape c =
     (let n = (of_char c :: nat) in
      if c = dquote then [backslash, dquote]
      else if c = backslash then [backslash, backslash]
      else if c = CHR 0x0A then [backslash, CHR ''n'']
      else if c = CHR 0x0D then [backslash, CHR ''r'']
      else if c = CHR 0x09 then [backslash, CHR ''t'']
      else if c = CHR 0x08 then [backslash, CHR ''b'']
      else if c = CHR 0x0C then [backslash, CHR ''f'']
      else if n < 32 then [backslash, CHR ''u'', CHR ''0'', CHR ''0''] @ hex2 n
      else [c])"

definition dumps_str :: "string \<Rightarrow> string" where
  "dumps_str s = [dquote] @ concat (map json_escape s) @ [dquote]"

fun dumps_key :: "pyval \<Rightarrow> exn + string" where
  "dumps_key (PStr s) = Inr (dumps_str s)"
| "dumps_key (PBool b) = Inr (dumps_str (if b then ''true'' else ''false''))"
| "dumps_key PNone = Inr (dumps_str ''null'')"
| "dumps_key (PInt i) = Inr (dumps_str (str_int i))"
| "dumps_key v =
     Inl (Exc TypeError (''keys must be str, int, float, bool or None, not '' @ type_name v))"

fun dumps :: "pyval \<Rightarrow> exn + string"
  and dumps_list :: "pyval list \<Rightarrow> exn + string list"
  and dumps_items :: "(pyval \<times> pyval) list \<Rightarrow> exn + string list" where
  "dumps PNone = Inr ''null''"
| "dumps (PBool b) = Inr (if b then ''true'' else ''false'')"
| "dumps (PInt i) = Inr (str_int i)"
| "dumps (PStr s) = Inr (dumps_str s)"
| "dumps (PList xs) =
     (case dumps_list xs of Inl e \<Rightarrow> Inl e | Inr ts \<Rightarrow> Inr (''['' @ join '', '' ts @ '']''))"
| "dumps (PDict d) =
     (case dumps_items d of Inl e \<Rightarrow> Inl e | Inr ts \<Rightarrow> Inr (''{'' @ join '', '' ts @ ''}''))"
| "dumps (PObj c r) =
     Inl (Exc TypeError (''Object of type '' @ c @ '' is not JSON serializable''))"
| "dumps_list [] = Inr []"
| "dumps_list (x # xs) =
     (case dumps x of
        Inl e \<Rightarrow> Inl e
      | Inr t \<Rightarrow> (case dumps_list xs of Inl e \<Rightarrow> Inl e | Inr ts \<Rightarrow> Inr (t # ts)))"
| "dumps_items [] = Inr []"
| "dumps_items ((k, v) # d) =
     (case dumps_key k of
        Inl e \<Rightarrow> Inl e
      | Inr tk \<Rightarrow>
          (case dumps v of
             Inl e \<Rightarrow> Inl e
           | Inr tv \<Rightarrow>
               (case dumps_items d of
                  Inl e \<Rightarrow> Inl e
                | Inr ts \<Rightarrow> Inr ((tk @ '': '' @ tv) # ts))))"

text \<open>
  A model of \<open>json.loads\<close> for documents whose numbers are integers and whose strings
  have only the two-character escapes: on such a document it gives the value Python
  gives, with the members of an object in the order of the text and the last value of a
  repeated key. Other documents (fractions, exponents, \<open>NaN\<close>, \<open>\<bsol>u\<close> escapes) are
  outside the model, which answers \<open>None\<close> for them as for a malformed text. The
  functions take the number of nested calls they may still make.
\<close>

definition json_ws :: "char \<Rightarrow> bool" where
  "json_ws c = (c = CHR '' '' \<or> c = CHR 0x09 \<or> c = CHR 0x0A \<or> c = CHR 0x0D)"

definition skip_ws :: "string \<Rightarrow> string" where
  "skip_ws s = dropWhile json_ws s"

definition is_digit :: "char \<Rightarrow> bool" where
  "is_digit c = (c \<in> set ''0123456789'')"

definition digit_val :: "char \<Rightarrow> nat" where
  "digit_val c = (of_char c :: nat) - 48"

definition digits_val :: "string \<Rightarrow> nat" where
  "digits_val ds = foldl (\<lambda>a c. 10 * a + digit_val c) 0 ds"

text \<open>An integer literal: an optional minus, then \<open>0\<close> or digits that do not start with \<open>0\<close>.\<close>

definition parse_int :: "string \<Rightarrow> (pyval \<times> string) option" where
  "parse_int s =
     (let neg = (take 1 s = ''-'');
          s1 = (if neg then drop 1 s else s);
          ds = (if take 1 s1 = ''0'' then ''0'' else takeWhile is_digit s1);
          rest = drop (length ds) s1
      in if ds = [] then None
         else if take 1 rest = ''.'' \<or> take 1 rest = ''e'' \<or> take 1 rest = ''E'' then None
         else Some (PInt (if neg then - int (digits_val ds) else int (digits_val ds)), rest))"

text \<open>The text of a string literal after its opening quote, up to the closing one.\<close>

fun parse_string :: "string \<Rightarrow> string \<Rightarrow> (string \<times> string) option" where
  "parse_string [] acc = None"
| "parse_string (c # cs) acc =
     (if c = dquote then Some (rev acc, cs)
      else if c = backslash then
        (case cs of
           [] \<Rightarrow> None
         | e # es \<Rightarrow>
             if e = dquote \<or> e = backslash \<or> e = CHR ''/'' then parse_string es (e # acc)
             else if e = CHR ''b'' then parse_string es (CHR 0x08 # acc)
             else if e = CHR ''f'' then parse_string es (CHR 0x0C # acc)
             else if e = CHR ''n'' then parse_string es (CHR 0x0A # acc)
             else if e = CHR ''r'' then parse_string es (CHR 0x0D # acc)
             else if e = CHR ''t'' then parse_string es (CHR 0x09 # acc)
             else None)
      else if (of_char c :: nat) < 32 then None
      else parse_string cs (c # acc))"

fun parse_value :: "nat \<Rightarrow> string \<Rightarrow> (pyval \<times> string) option"
  and parse_elements :: "nat \<Rightarrow> string \<Rightarrow> pyval list \<Rightarrow> (pyval \<times> string) option"
  and parse_members :: "nat \<Rightarrow> string \<Rightarrow> (pyval \<times> pyval) list \<Rightarrow> (pyval \<times> string) option" where
  "parse_value 0 s = None"
| "parse_value (Suc n) s =
     (case s of
        [] \<Rightarrow> None
      | c # cs \<Rightarrow>
          if c = CHR ''{'' then
            (if take 1 (skip_ws cs) = ''}'' then Some (PDict [], drop 1 (skip_ws cs))
             else parse_members n (skip_ws cs) [])
          else if c = CHR ''['' then
            (if take 1 (skip_ws cs) = '']'' then Some (PList [], drop 1 (skip_ws cs))
             else parse_elements n (skip_ws cs) [])
          else if c = dquote then
            (case parse_string cs [] of None \<Rightarrow> None | Some (t, rest) \<Rightarrow> Some (PStr t, rest))
          else if take 4 s = ''null'' then Some (PNone, drop 4 s)
          else if take 4 s = ''true'' then Some (PBool True, drop 4 s)
          else if take 5 s = ''false'' then Some (PBool False, drop 5 s)
          else parse_int s)"
| "parse_elements 0 s acc = None"
| "parse_elements (Suc n) s acc =
     (case parse_value n s of
        None \<Rightarrow> None
      | Some (v, rest) \<Rightarrow>
          (let r = skip_ws rest in
           if take 1 r = '']'' then Some (PList (acc @ [v]), drop 1 r)
           else if take 1 r = '','' then parse_elements n (skip_ws (drop 1 r)) (acc @ [v])
           else None))"
| "parse_members 0 s acc = None"
| "parse_members (Suc n) s acc =
     (case s of
        [] \<Rightarrow> None
      | c # cs \<Rightarrow>
          if c \<noteq> dquote then None
          else
            (case parse_string cs [] of
               None \<Rightarrow> None
             | Some (k, rest) \<Rightarrow>
                 (let r = skip_ws rest in
                  if take 1 r \<noteq> '':'' then None
                  else
                    (case parse_value n (skip_ws (drop 1 r)) of
                       None \<Rightarrow> None
                     | Some (v, rest2) \<Rightarrow>
                         (let r2 = skip_ws rest2 in
                          if take 1 r2 = ''}'' then Some (PDict (dict_set acc (PStr k) v), drop 1 r2)
                          else if take 1 r2 = '',''
                          then parse_members n (skip_ws (drop 1 r2)) (dict_set acc (PStr k) v)
                          else None)))))"

definition loads_model :: "string \<Rightarrow> pyval option" where
  "loads_model s =
     (case parse_value (Suc (length s)) (skip_ws s) of
        None \<Rightarrow> None
      | Some (v, rest) \<Rightarrow> if skip_ws rest = [] then Some v else None)"

text \<open>
  The library with this parser, a \<open>jsonschema\<close> that accepts every schema, and sets
  printed in the order their elements are given.
\<close>

definition pylib :: lib where
  "pylib =
     \<lparr>json_loads = loads_model, jsonschema_validate = (\<lambda>p. None),
      set_repr = (\<lambda>xs. ''{'' @ join '', '' (map repr_str xs) @ ''}'')\<rparr>"

text \<open>The \<open>JSONDecodeError\<close> of a text that does not parse, with its usual message.\<close>

definition json_decode_error :: exn where
  "json_decode_error = Exc JSONDecodeError ''Expecting value: line 1 column 1 (char 0)''"

section \<open>Adapters: the wrapper of a tool (mcp_utils.py)\<close>

text \<open>\<open>s.replace(old, new)\<close> for a non-empty \<open>old\<close>.\<close>

function replace :: "string \<Rightarrow> string \<Rightarrow> string \<Rightarrow> string" where
  "replace old new [] = []"
| "replace old new (c # cs) =
     (if old \<noteq> [] \<and> take (length old) (c # cs) = old
      then new @ replace old new (drop (length old) (c # cs))
      else c # replace old new cs)"
  by pat_completeness auto
termination
  by (relation "measure (\<lambda>(old, new, s). length s)") auto

text \<open>
  \<open>d.update(other)\<close>: the items of a dict are stored in order; any other object is
  read as a sequence of pairs, each of which must have two elements and a hashable first
  one.
\<close>

definition update_items :: "(pyval \<times> pyval) list \<Rightarrow> (pyval \<times> pyval) list \<Rightarrow> (pyval \<times> pyval) list" where
  "update_items params items = foldl (\<lambda>acc (k, v). dict_set acc k v) params items"

fun update_pairs :: "nat \<Rightarrow> (pyval \<times> pyval) list \<Rightarrow> pyval list \<Rightarrow> exn + (pyval \<times> pyval) list" where
  "update_pairs i params [] = Inr params"
| "update_pairs i params (x # xs) =
     (case py_iter x of
        Inl e \<Rightarrow>
          Inl (Exc TypeError
            (''cannot convert dictionary update sequence element #'' @ str_nat i @
             '' to a sequence''))
      | Inr [k, v] \<Rightarrow>
          if hashable k then update_pairs (Suc i) (dict_set params k v) xs
          else Inl (unhashable k)
      | Inr ys \<Rightarrow>
          Inl (Exc ValueError
            (''dictionary update sequence element #'' @ str_nat i @ '' has length '' @
             str_nat (length ys) @ ''; 2 is required'')))"

definition py_update :: "(pyval \<times> pyval) list \<Rightarrow> pyval \<Rightarrow> exn + (pyval \<times> pyval) list" where
  "py_update params other =
     (case other of
        PDict d \<Rightarrow> Inr (update_items params d)
      | _ \<Rightarrow> and_then (py_iter other) (update_pairs 0 params))"

text \<open>The test \<open>x and x.strip()\<close> on a fragment.\<close>

definition nonblank :: "pyval \<Rightarrow> exn + bool" where
  "nonblank x =
     (if \<not> py_truthy x then Inr False
      else case x of PStr s \<Rightarrow> Inr (strip s \<noteq> []) | _ \<Rightarrow> Inl (no_attribute x ''strip''))"

text \<open>The text of a fragment known to be a string.\<close>

fun str_of :: "pyval \<Rightarrow> string" where
  "str_of (PStr s) = s"
| "str_of v = []"

definition kwargs_fixed :: "string \<Rightarrow> string" where
  "kwargs_fixed kwargs_str =
     replace ([dquote] @ ''='' @ [dquote]) ([dquote] @ '':'' @ [dquote])
       (replace (''='' @ [dquote]) ('':'' @ [dquote]) kwargs_str)"

text \<open>
  The \<open>kwargs\<close> fragment: parsed and merged; when it does not parse, parsed again
  after \<open>kwargs_fixed\<close>; when that does not parse either, left out.
\<close>

definition merge_kwargs :: "lib \<Rightarrow> pyval \<Rightarrow> (pyval \<times> pyval) list \<Rightarrow> exn + (pyval \<times> pyval) list" where
  "merge_kwargs L kwargs_str params =
     and_then (nonblank kwargs_str) (\<lambda>present.
       if present
       then (case json_loads L (str_of kwargs_str) of
               Some v \<Rightarrow> py_update params v
             | None \<Rightarrow>
                 (case json_loads L (kwargs_fixed (str_of kwargs_str)) of
                    Some v \<Rightarrow> py_update params v
                  | None \<Rightarrow> Inr params))
       else Inr params)"

text \<open>
  The \<open>args\<close> fragment: parsed, and merged when it is a dict; left out when it does not
  parse or is not a dict.
\<close>

definition merge_args :: "lib \<Rightarrow> pyval \<Rightarrow> (pyval \<times> pyval) list \<Rightarrow> exn + (pyval \<times> pyval) list" where
  "merge_args L args_str params =
     and_then (nonblank args_str) (\<lambda>present.
       if present
       then (case json_loads L (str_of args_str) of
               Some args_data \<Rightarrow>
                 if is_dict args_data then py_update params args_data else Inr params
             | None \<Rightarrow> Inr params)
       else Inr params)"

text \<open>
  The JSON text \<open>wrapper(*args, **kwargs)\<close> passes to the tool: \<open>args\<close> are the
  positional arguments and \<open>kwargs\<close> the items of the keyword arguments.
\<close>

definition wrapper_payload :: "lib \<Rightarrow> pyval list \<Rightarrow> (pyval \<times> pyval) list \<Rightarrow> exn + string" where
  "wrapper_payload L args kwargs =
     (if dict_lookup kwargs (PStr ''args'') \<noteq> None \<and> dict_lookup kwargs (PStr ''kwargs'') \<noteq> None
      then
        (let args_str = (case dict_lookup kwargs (PStr ''args'') of Some v \<Rightarrow> v | None \<Rightarrow> PStr []);
             kwargs_str =
               (case dict_lookup kwargs (PStr ''kwargs'') of Some v \<Rightarrow> v | None \<Rightarrow> PStr [])
         in and_then (merge_kwargs L kwargs_str []) (\<lambda>params1.
            and_then (merge_args L args_str params1) (\<lambda>params2.
              dumps (PDict params2))))
      else if args \<noteq> [] \<and> is_dict (hd args) then dumps (hd args)
      else dumps (PDict kwargs))"

text \<open>
  \<open>ToolClass.call\<close> on a JSON text: the arguments are parsed, the client of the tool is
  looked up in the registry and asked to execute.
\<close>

definition tool_call :: "lib \<Rightarrow> tool \<Rightarrow> string \<Rightarrow> proc \<Rightarrow> (exn + string) \<times> proc" where
  "tool_call L self params st =
     (case json_loads L params of
        None \<Rightarrow> (Inl json_decode_error, st)
      | Some tool_args \<Rightarrow>
          (case clients st (t_client_id self) of
             None \<Rightarrow> (Inl (Exc KeyError (repr_str (t_client_id self))), st)
           | Some c \<Rightarrow> execute_function c (t_tool_name self) tool_args st))"

text \<open>The wrapper: whatever is raised inside comes back as text.\<close>

definition wrapper ::
  "lib \<Rightarrow> tool \<Rightarrow> pyval list \<Rightarrow> (pyval \<times> pyval) list \<Rightarrow> proc \<Rightarrow> (exn + string) \<times> proc" where
  "wrapper L tool_obj args kwargs st =
     (case wrapper_payload L args kwargs of
        Inl e \<Rightarrow> (Inr (''Tool call error: '' @ str_exn e), st)
      | Inr params_json \<Rightarrow>
          (case tool_call L tool_obj params_json st of
             (Inl e, st1) \<Rightarrow> (Inr (''Tool call error: '' @ str_exn e), st1)
           | (Inr result, st1) \<Rightarrow> (Inr result, st1)))"

section \<open>Wrapping and loading tools (mcp_utils.py)\<close>

text \<open>
  \<open>str.isidentifier\<close> and \<open>keyword.kwlist\<close>. Identifiers are read on code points
  below 256.
\<close>

definition id_start :: "char \<Rightarrow> bool" where
  "id_start c =
     (let n = (of_char c :: nat) in
      (65 \<le> n \<and> n \<le> 90) \<or> (97 \<le> n \<and> n \<le> 122) \<or> n = 95 \<or> n = 170 \<or> n = 181 \<or> n = 186 \<or>
      (192 \<le> n \<and> n \<le> 214) \<or> (216 \<le> n \<and> n \<le> 246) \<or> (248 \<le> n \<and> n \<le> 255))"

definition id_continue :: "char \<Rightarrow> bool" where
  "id_continue c = (id_start c \<or> is_digit c \<or> (of_char c :: nat) = 183)"

definition isidentifier :: "string \<Rightarrow> bool" where
  "isidentifier s = (case s of [] \<Rightarrow> False | c # cs \<Rightarrow> id_start c \<and> list_all id_continue cs)"

definition kwlist :: "string list" where
  "kwlist =
     [''False'', ''None'', ''True'', ''and'', ''as'', ''assert'', ''async'', ''await'', ''break'',
      ''class'', ''continue'', ''def'', ''del'', ''elif'', ''else'', ''except'', ''finally'',
      ''for'', ''from'', ''global'', ''if'', ''import'', ''in'', ''is'', ''lambda'', ''nonlocal'',
      ''not'', ''or'', ''pass'', ''raise'', ''return'', ''try'', ''while'', ''with'', ''yield'']"

text \<open>\<open>str.isdigit\<close> on code points below 256: the ten digits and three superscripts.\<close>

definition py_isdigit :: "char \<Rightarrow> bool" where
  "py_isdigit c = (is_digit c \<or> (of_char c :: nat) \<in> {178, 179, 185})"

datatype param_kind = POSITIONAL_ONLY | POSITIONAL_OR_KEYWORD

text \<open>
  \<open>inspect.Parameter(name, POSITIONAL_OR_KEYWORD, ...)\<close>, by the name and kind of the
  parameter built. The name must be a string; its first character is read, which fails
  on the empty string; a dot followed by digits names an implicit argument, which is
  renamed and made positional-only; the name must then be an identifier, and not a
  keyword unless the parameter is positional-only.
\<close>

definition Parameter :: "pyval \<Rightarrow> exn + string \<times> param_kind" where
  "Parameter name =
     (case name of
        PStr s \<Rightarrow>
          (case s of
             [] \<Rightarrow> Inl (Exc IndexError ''string index out of range'')
           | c # cs \<Rightarrow>
               (let implicit = (c = CHR ''.'' \<and> cs \<noteq> [] \<and> list_all py_isdigit cs);
                    kind = (if implicit then POSITIONAL_ONLY else POSITIONAL_OR_KEYWORD);
                    name1 = (if implicit then ''implicit'' @ cs else s)
                in if (name1 \<in> set kwlist \<and> kind \<noteq> POSITIONAL_ONLY) \<or> \<not> isidentifier name1
                   then Inl (Exc ValueError (repr_str name1 @ '' is not a valid parameter name''))
                   else Inr (name1, kind)))
      | _ \<Rightarrow> Inl (Exc TypeError (''name must be a str, not a '' @ type_name name)))"

text \<open>
  One \<open>Parameter(name, ..., annotation=get_python_type_from_schema(value))\<close>: the
  annotation is computed first (\<open>value.get\<close>, then a lookup keyed by the type), then the
  parameter is built.
\<close>

definition make_parameter :: "pyval \<times> pyval \<Rightarrow> exn + string \<times> param_kind" where
  "make_parameter item =
     (case item of (name, v) \<Rightarrow>
        (case py_get v ''type'' (PStr ''string'') of
           Inl e \<Rightarrow> Inl e
         | Inr t \<Rightarrow> if \<not> hashable t then Inl (unhashable t) else Parameter name))"

fun make_parameters :: "(pyval \<times> pyval) list \<Rightarrow> exn + (string \<times> param_kind) list" where
  "make_parameters [] = Inr []"
| "make_parameters (item # items) =
     (case make_parameter item of
        Inl e \<Rightarrow> Inl e
      | Inr p \<Rightarrow> (case make_parameters items of Inl e \<Rightarrow> Inl e | Inr ps \<Rightarrow> Inr (p # ps)))"

text \<open>
  \<open>Signature(parameters)\<close> checks the list it is given: no positional-only parameter
  after a positional-or-keyword one, and no name twice. \<open>top_kind\<close> is the kind of the
  parameter before, \<open>params\<close> the names seen.
\<close>

fun Signature :: "(string \<times> param_kind) list \<Rightarrow> param_kind \<Rightarrow> string list \<Rightarrow> exn option" where
  "Signature [] top_kind params = None"
| "Signature ((name, kind) # rest) top_kind params =
     (if kind = POSITIONAL_ONLY \<and> top_kind = POSITIONAL_OR_KEYWORD
      then Some (Exc ValueError
        (''wrong parameter order: positional or keyword parameter before '' @
         ''positional-only parameter''))
      else if name \<in> set params
      then Some (Exc ValueError (''duplicate parameter name: '' @ repr_str name))
      else Signature rest kind (params @ [name]))"

text \<open>
  \<open>create_wrapper\<close>: the wrapper of a tool is the tool it closes over; building its
  signature from the parameter schema can raise.
\<close>

definition create_wrapper :: "tool \<Rightarrow> exn + tool" where
  "create_wrapper tool_obj =
     (let params = t_parameters tool_obj in
      case (case params of
              PDict d \<Rightarrow>
                (case dict_lookup d (PStr ''properties'') of
                   Some props \<Rightarrow> py_items props
                 | None \<Rightarrow> Inr d)
            | _ \<Rightarrow> Inr []) of
        Inl e \<Rightarrow> Inl e
      | Inr param_items \<Rightarrow>
          (case make_parameters param_items of
             Inl e \<Rightarrow> Inl e
           | Inr sig_params \<Rightarrow>
               (case Signature sig_params POSITIONAL_ONLY [] of
                  Some e \<Rightarrow> Inl e
                | None \<Rightarrow> Inr tool_obj)))"

text \<open>\<open>functions_map[tool_name] = ...\<close> on a dict with string keys.\<close>

fun map_set :: "(string \<times> 'a) list \<Rightarrow> string \<Rightarrow> 'a \<Rightarrow> (string \<times> 'a) list" where
  "map_set [] k v = [(k, v)]"
| "map_set ((k', v') # m) k v = (if k' = k then (k', v) # m else (k', v') # map_set m k v)"

fun wrap_tools_loop :: "tool list \<Rightarrow> (string \<times> tool) list \<Rightarrow> exn + (string \<times> tool) list" where
  "wrap_tools_loop [] functions_map = Inr functions_map"
| "wrap_tools_loop (t # ts) functions_map =
     (case create_wrapper t of
        Inl e \<Rightarrow> Inl e
      | Inr w \<Rightarrow> wrap_tools_loop ts (map_set functions_map (t_name t) w))"

definition wrap_tools :: "tool list \<Rightarrow> exn + (string \<times> tool) list" where
  "wrap_tools ts = wrap_tools_loop ts []"

text \<open>
  The file a path names: a relative path is read from the working directory. Paths are
  taken without \<open>.\<close>, \<open>..\<close> and doubled separators.
\<close>

definition abspath :: "string \<Rightarrow> string \<Rightarrow> string" where
  "abspath dir path = (if take 1 path = ''/'' then path else dir @ ''/'' @ path)"

definition read_file :: "string \<Rightarrow> proc \<Rightarrow> exn + string" where
  "read_file path st =
     (case files st (abspath (cwd st) path) of
        None \<Rightarrow>
          Inl (Exc FileNotFoundError
            (''[Errno 2] No such file or directory: '' @ repr_str path))
      | Some content \<Rightarrow> Inr content)"

text \<open>
  \<open>load_mcp_config\<close>: every exception of the body is printed, logged and answered with
  the empty list.
\<close>

definition load_mcp_config_body ::
  "lib \<Rightarrow> string \<Rightarrow> bool \<Rightarrow> proc \<Rightarrow> (exn + tool list) \<times> proc" where
  "load_mcp_config_body L mcp_config_path return_callable st =
     (case read_file mcp_config_path st of
        Inl e \<Rightarrow> (Inl e, st)
      | Inr content \<Rightarrow>
          (case json_loads L content of
             None \<Rightarrow> (Inl json_decode_error, st)
           | Some config \<Rightarrow>
               (case initConfig L config st of
                  (Inl e, st1) \<Rightarrow> (Inl e, st1)
                | (Inr ts, st1) \<Rightarrow>
                    if return_callable
                    then (case wrap_tools ts of
                            Inl e \<Rightarrow> (Inl e, st1)
                          | Inr functions_map \<Rightarrow> (Inr (map snd functions_map), st1))
                    else (Inr ts, st1))))"

definition load_mcp_config ::
  "lib \<Rightarrow> string \<Rightarrow> bool \<Rightarrow> proc \<Rightarrow> (exn + tool list) \<times> proc" where
  "load_mcp_config L mcp_config_path return_callable st =
     (case load_mcp_config_body L mcp_config_path return_callable st of
        (Inl e, st1) \<Rightarrow> (Inr [], st1)
      | (Inr ts, st1) \<Rightarrow> (Inr ts, st1))"

definition create_callable_mcp_tools ::
  "lib \<Rightarrow> string \<Rightarrow> proc \<Rightarrow> (exn + (string \<times> tool) list) \<times> proc" where
  "create_callable_mcp_tools L config_path st =
     (case load_mcp_config L config_path False st of
        (Inl e, st1) \<Rightarrow> (Inl e, st1)
      | (Inr ts, st1) \<Rightarrow> (wrap_tools ts, st1))"

text \<open>\<open>_get_cached_callable_tools\<close>: the cache is a dict keyed by the path as given.\<close>

definition get_cached_callable_tools ::
  "lib \<Rightarrow> string \<Rightarrow> proc \<Rightarrow> (exn + (string \<times> tool) list) \<times> proc" where
  "get_cached_callable_tools L mcp_config_path st =
     (case config_cache st mcp_config_path of
        Some callable_tools \<Rightarrow> (Inr callable_tools, st)
      | None \<Rightarrow>
          (case create_callable_mcp_tools L mcp_config_path st of
             (Inl e, st1) \<Rightarrow> (Inl e, st1)
           | (Inr callable_tools, st1) \<Rightarrow>
               (Inr callable_tools,
                st1\<lparr>config_cache := (config_cache st1)(mcp_config_path \<mapsto> callable_tools)\<rparr>)))"

section \<open>Malformed configurations and a fresh process\<close>

text \<open>
  The malformed configurations the specification lists: \<open>mcpServers\<close> missing or not
  a dict, an entry that is not a dict, a \<open>command\<close> that is not a string, or a
  \<open>command\<close> without a list-valued \<open>args\<close>.
\<close>

definition entry_malformed :: "pyval \<Rightarrow> bool" where
  "entry_malformed server =
     (case server of
        PDict d \<Rightarrow>
          (case dict_lookup d (PStr ''command'') of
             None \<Rightarrow> False
           | Some command \<Rightarrow>
               \<not> is_str command \<or>
               (case dict_lookup d (PStr ''args'') of None \<Rightarrow> True | Some args \<Rightarrow> \<not> is_list args))
      | _ \<Rightarrow> True)"

definition config_malformed :: "pyval \<Rightarrow> bool" where
  "config_malformed config =
     (case config of
        PDict d \<Rightarrow>
          (case dict_lookup d (PStr ''mcpServers'') of
             None \<Rightarrow> True
           | Some (PDict servers) \<Rightarrow> list_ex (\<lambda>(name, server). entry_malformed server) servers
           | Some v \<Rightarrow> True)
      | _ \<Rightarrow> True)"

text \<open>
  A process that has connected to nothing yet, in a world that will answer its connection
  attempts with \<open>w\<close> and holds the files \<open>fs\<close>.
\<close>

definition proc_init :: "(exn + session \<times> mcp_tool list) list \<Rightarrow> (string \<rightharpoonup> string) \<Rightarrow> proc" where
  "proc_init w fs =
     \<lparr>clients = Map.empty, config_cache = Map.empty, connects = w, attempts = [],
      uuid_source = (\<lambda>n. ''uuid'' @ str_nat n), uuid_drawn = 0, files = fs, cwd = ''/work''\<rparr>"

text \<open>A configuration whose one server has a command and no \<open>args\<close>.\<close>

definition config_command_without_args :: pyval where
  "config_command_without_args =
     PDict [(PStr ''mcpServers'', PDict [(PStr ''memory'', PDict [(PStr ''command'', PStr ''npx'')])])]"

text \<open>A configuration whose one server entry is the empty dict.\<close>

definition config_empty_entry :: pyval where
  "config_empty_entry = PDict [(PStr ''mcpServers'', PDict [(PStr ''memory'', PDict [])])]"

text \<open>A configuration with an empty entry beside an entry that is not a dict.\<close>

definition config_empty_and_bad :: pyval where
  "config_empty_and_bad =
     PDict [(PStr ''mcpServers'', PDict [(PStr ''a'', PDict []), (PStr ''b'', PInt 5)])]"

section \<open>Registered schemas: shape and examples\<close>

text \<open>The keys of a registered parameter schema, in order.\<close>

definition schema_keys :: "pyval \<Rightarrow> pyval list" where
  "schema_keys p = (case p of PDict d \<Rightarrow> map fst d | _ \<Rightarrow> [])"

definition three_keys :: "tool \<Rightarrow> bool" where
  "three_keys t =
     (schema_keys (t_parameters t) = [PStr ''type'', PStr ''properties'', PStr ''required''])"

text \<open>
  A server with one tool, as the docstring of \<open>init_config_async\<close> shows it, once
  without \<open>required\<close> and once without \<open>type\<close>; a session that answers every call;
  and a configuration with that server.
\<close>

definition tool_without_type :: mcp_tool where
  "tool_without_type =
     \<lparr>mt_name = ''read_query'', mt_description = PStr ''Execute a SELECT query'',
      mt_inputSchema = [(PStr ''properties'', PDict [])]\<rparr>"

definition tool_read_query :: mcp_tool where
  "tool_read_query =
     \<lparr>mt_name = ''read_query'', mt_description = PStr ''Execute a SELECT query'',
      mt_inputSchema =
        [(PStr ''type'', PStr ''object''),
         (PStr ''properties'', PDict [(PStr ''query'', PDict [(PStr ''type'', PStr ''string'')])])]\<rparr>"

definition session_ok :: session where
  "session_ok =
     \<lparr>s_ping = None, s_call_tool = (\<lambda>name args. Inr [TextContent ''ok'']),
      s_list_resources = Inr [], s_read_resource = (\<lambda>uri. Inr []),
      s_list_resource_templates = Inr []\<rparr>"

definition config_sqlite :: pyval where
  "config_sqlite =
     PDict [(PStr ''mcpServers'',
       PDict [(PStr ''sqlite'',
         PDict [(PStr ''command'', PStr ''uvx''),
                (PStr ''args'', PList [PStr ''mcp-server-sqlite''])])])]"

definition registered_read_query :: tool where
  "registered_read_query =
     \<lparr>t_name = ''sqlite-read_query'', t_description = PStr ''Execute a SELECT query'',
      t_parameters =
        PDict [(PStr ''type'', PStr ''object''),
          (PStr ''properties'', PDict [(PStr ''query'', PDict [(PStr ''type'', PStr ''string'')])]),
          (PStr ''required'', PList [])],
      t_client_id = ''sqlite_uuid0'', t_tool_name = ''read_query''\<rparr>"

text \<open>
  An upstream schema is complete when it has \<open>type\<close> and \<open>properties\<close>. For one
  that is not, the exception of the registration loop names the missing ones among the
  two (\<open>required\<close> has been added by then). \<open>tools_of\<close> are the tools a client
  listed.
\<close>

definition schema_complete :: "mcp_tool \<Rightarrow> bool" where
  "schema_complete mt =
     (dict_lookup (mt_inputSchema mt) (PStr ''type'') \<noteq> None \<and>
      dict_lookup (mt_inputSchema mt) (PStr ''properties'') \<noteq> None)"

definition missing_fields_error :: "lib \<Rightarrow> mcp_tool \<Rightarrow> exn" where
  "missing_fields_error L mt =
     Exc ValueError
       (''Missing required fields in schema: '' @
        set_repr L
          (filter (\<lambda>f. dict_lookup (mt_inputSchema mt) (PStr f) = None)
             [''type'', ''properties'']))"

definition tools_of :: "client \<Rightarrow> mcp_tool list" where
  "tools_of c = (case c_tools c of None \<Rightarrow> [] | Some mts \<Rightarrow> mts)"

section \<open>A registered client whose session has died\<close>

text \<open>
  A session whose probe raises, the descriptor of its server, the client registered for it
  under \<open>sqlite_uuid0\<close>, a process with that client in the registry, and the
  arguments of a call.
\<close>

definition session_dead :: session where
  "session_dead = session_ok\<lparr>s_ping := Some (Exc (OtherError ''ClosedResourceError'') [])\<rparr>"

text \<open>A session that is alive and whose every tool call raises.\<close>

definition session_raising :: session where
  "session_raising =
     session_ok\<lparr>s_call_tool := (\<lambda>name args. Inl (Exc (OtherError ''McpError'') ''Tool failed''))\<rparr>"

definition sqlite_descriptor :: pyval where
  "sqlite_descriptor =
     PDict [(PStr ''command'', PStr ''uvx''), (PStr ''args'', PList [PStr ''mcp-server-sqlite''])]"

definition client_of :: "session \<Rightarrow> client" where
  "client_of sess =
     \<lparr>c_session = Some sess, c_tools = Some [tool_read_query], c_resources = False,
      c_last_mcp_server_name = Some (PStr ''sqlite''),
      c_last_mcp_server = Some sqlite_descriptor,
      c_client_id = Some ''sqlite_uuid0''\<rparr>"

definition proc_registered :: "(exn + session \<times> mcp_tool list) list \<Rightarrow> proc" where
  "proc_registered w =
     (proc_init w Map.empty)\<lparr>clients := [''sqlite_uuid0'' \<mapsto> client_of session_dead]\<rparr>"

definition call_args :: pyval where
  "call_args = PDict [(PStr ''query'', PStr ''SELECT 1'')]"

section \<open>Files of the examples\<close>

text \<open>A file that is not JSON and a JSON file without \<open>mcpServers\<close>.\<close>

definition example_files :: "string \<rightharpoonup> string" where
  "example_files =
     [''/work/bad.json'' \<mapsto> ''{not json'',
      ''/work/noservers.json'' \<mapsto> ''{}'']"

section \<open>Properties of the schema format check\<close>

lemma check_top_level_lengths:
  "check_top_level ps fs acc = Inr acc' \<Longrightarrow> length (fst acc) = length (snd acc)
   \<Longrightarrow> length (fst acc') = length (snd acc')"
proof (induction fs arbitrary: acc)
  case Nil
  then show ?case by simp
next
  case (Cons f fs)
  obtain iss sug where acc: "acc = (iss, sug)" by (cases acc)
  from Cons.prems(1) obtain present where
    p: "py_in (PStr f) ps = Inr present" and
    r: "check_top_level ps fs
          (if \<not> present
           then (iss @ [''Missing top-level field: '' @ f],
                 sug @ [''Please add the '' @ f @ '' field in parameters.''])
           else (iss, sug)) = Inr acc'"
    by (auto simp: acc and_then_def split: sum.splits)
  show ?case
    by (rule Cons.IH [OF r]) (use Cons.prems(2) acc in auto)
qed

lemma check_property_types_lengths:
  "check_property_types items acc = Inr acc' \<Longrightarrow> length (fst acc) = length (snd acc)
   \<Longrightarrow> length (fst acc') = length (snd acc')"
proof (induction items arbitrary: acc)
  case Nil
  then show ?case by simp
next
  case (Cons it items)
  obtain iss sug where acc: "acc = (iss, sug)" by (cases acc)
  obtain nm pr where it: "it = (nm, pr)" by (cases it)
  from Cons.prems(1) obtain present where
    r: "check_property_types items
          (if \<not> present
           then (iss @ [''Parameter '' @ py_str nm @ '' is missing the type field.''],
                 sug @ [''Please add the type field for parameter '' @ py_str nm @ ''.''])
           else (iss, sug)) = Inr acc'"
    by (auto simp: acc it and_then_def split: sum.splits)
  show ?case
    by (rule Cons.IH [OF r]) (use Cons.prems(2) acc in auto)
qed

lemma check_required_lengths:
  "check_required ps reqs acc = Inr acc' \<Longrightarrow> length (fst acc) = length (snd acc)
   \<Longrightarrow> length (fst acc') = length (snd acc')"
proof (induction reqs arbitrary: acc)
  case Nil
  then show ?case by simp
next
  case (Cons req reqs)
  obtain iss sug where acc: "acc = (iss, sug)" by (cases acc)
  from Cons.prems(1) obtain present where
    r: "check_required ps reqs
          (if \<not> present
           then (iss @ [''Required parameter '' @ py_str req @ '' is not defined in properties.''],
                 sug @ [''Please add the required parameter '' @ py_str req @ '' in properties.''])
           else (iss, sug)) = Inr acc'"
    by (auto simp: acc and_then_def split: sum.splits)
  show ?case
    by (rule Cons.IH [OF r]) (use Cons.prems(2) acc in auto)
qed

lemma and_then_Inr: "(and_then m f = Inr r) = (\<exists>v. m = Inr v \<and> f v = Inr r)"
  by (cases m) (simp_all add: and_then_def)

lemma check_mcp_format_lengths:
  assumes "check_mcp_format a = Inr r"
  shows "length (suggestions r) = length (issues r) \<and> valid r = (issues r = [])"
proof (cases "(case a of None \<Rightarrow> PNone | Some v \<Rightarrow> v) = PNone")
  case True
  with assms show ?thesis by (auto simp: check_mcp_format_def)
next
  case False
  define ps where "ps = (case a of None \<Rightarrow> PNone | Some v \<Rightarrow> v)"
  from assms False have
    "and_then (check_top_level ps [''type'', ''properties'', ''required''] ([], []))
          (\<lambda>acc1.
        and_then (py_in (PStr ''properties'') ps) (\<lambda>has_props.
        and_then
          (if has_props
           then and_then (py_getitem ps ''properties'') (\<lambda>props.
                and_then (py_items props) (\<lambda>items. check_property_types items acc1))
           else Inr acc1) (\<lambda>acc2.
        and_then (py_in (PStr ''required'') ps) (\<lambda>has_req.
        and_then
          (if has_req
           then and_then (py_get ps ''required'' (PList [])) (\<lambda>reqs.
                and_then (py_iter reqs) (\<lambda>rs. check_required ps rs acc2))
           else Inr acc2) (\<lambda>(iss, sug).
        Inr \<lparr>valid = (length iss = 0), issues = iss, suggestions = sug,
             parameters = Some ps\<rparr>))))) = Inr r"
    unfolding check_mcp_format_def ps_def [symmetric] Let_def by (simp only: if_False)
  then obtain acc1 hp acc2 hr acc3 where
    a1: "check_top_level ps [''type'', ''properties'', ''required''] ([], []) = Inr acc1" and
    a2: "(if hp
           then and_then (py_getitem ps ''properties'') (\<lambda>props.
                and_then (py_items props) (\<lambda>items. check_property_types items acc1))
           else Inr acc1) = Inr acc2" and
    a3: "(if hr
           then and_then (py_get ps ''required'' (PList [])) (\<lambda>reqs.
                and_then (py_iter reqs) (\<lambda>rs. check_required ps rs acc2))
           else Inr acc2) = Inr acc3" and
    r: "(case acc3 of (iss, sug) \<Rightarrow>
          Inr \<lparr>valid = (length iss = 0), issues = iss, suggestions = sug,
               parameters = Some ps\<rparr>) = (Inr r :: exn + format_result)"
    unfolding and_then_Inr by blast
  from check_top_level_lengths [OF a1] have l1: "length (fst acc1) = length (snd acc1)" by simp
  have l2: "length (fst acc2) = length (snd acc2)"
  proof (cases hp)
    case True
    with a2 obtain items where "check_property_types items acc1 = Inr acc2"
      by (auto simp: and_then_Inr)
    from check_property_types_lengths [OF this l1] show ?thesis .
  next
    case False
    with a2 l1 show ?thesis by simp
  qed
  have l3: "length (fst acc3) = length (snd acc3)"
  proof (cases hr)
    case True
    with a3 obtain rs where "check_required ps rs acc2 = Inr acc3"
      by (auto simp: and_then_Inr)
    from check_required_lengths [OF this l2] show ?thesis .
  next
    case False
    with a3 l2 show ?thesis by simp
  qed
  obtain iss sug where acc3: "acc3 = (iss, sug)" by (cases acc3)
  from r l3 show ?thesis by (auto simp: acc3)
qed

lemma check_top_level_dict:
  "\<exists>acc'. check_top_level (PDict d) fs acc = Inr acc'"
proof (induction fs arbitrary: acc)
  case Nil
  then show ?case by simp
next
  case (Cons f fs)
  obtain iss sug where acc: "acc = (iss, sug)" by (cases acc)
  show ?case using Cons.IH by (simp add: acc and_then_def)
qed

lemma returns_isl: "(\<exists>r. m = Inr r) = (\<not> isl m)"
  by (cases m) auto

lemma isl_and_then: "isl (and_then m f) = (case m of Inl e \<Rightarrow> True | Inr v \<Rightarrow> isl (f v))"
  by (cases m) (simp_all add: and_then_def)

lemma isl_py_in_str: "isl (py_in (PStr f) v) = (\<not> container v)"
  by (cases v) (simp_all add: container_def)

lemma isl_check_top_level:
  "isl (check_top_level ps fs acc) = (fs \<noteq> [] \<and> \<not> container ps)"
proof (induction fs arbitrary: acc)
  case Nil
  then show ?case by simp
next
  case (Cons f fs)
  obtain iss sug where acc: "acc = (iss, sug)" by (cases acc)
  show ?case
    using isl_py_in_str [of f ps]
    by (cases "py_in (PStr f) ps") (auto simp: acc and_then_def Cons.IH)
qed

lemma isl_check_property_types:
  "isl (check_property_types items acc) = (\<not> list_all (\<lambda>(k, v). container v) items)"
proof (induction items arbitrary: acc)
  case Nil
  then show ?case by simp
next
  case (Cons it items)
  obtain iss sug where acc: "acc = (iss, sug)" by (cases acc)
  obtain nm pr where it: "it = (nm, pr)" by (cases it)
  show ?case
    using isl_py_in_str [of "''type''" pr]
    by (cases "py_in (PStr ''type'') pr") (auto simp: acc it and_then_def Cons.IH)
qed

lemma isl_check_required:
  assumes "case dict_lookup d (PStr ''properties'') of None \<Rightarrow> True | Some p \<Rightarrow> is_dict p"
  shows "isl (check_required (PDict d) reqs acc) = (\<not> list_all hashable reqs)"
proof -
  from assms obtain pd where pd: "py_get (PDict d) ''properties'' (PDict []) = Inr (PDict pd)"
    by (cases "dict_lookup d (PStr ''properties'')"; cases "the (dict_lookup d (PStr ''properties''))")
      auto
  show ?thesis
  proof (induction reqs arbitrary: acc)
    case Nil
    then show ?case by simp
  next
    case (Cons req reqs)
    obtain iss sug where acc: "acc = (iss, sug)" by (cases acc)
    show ?case
      by (cases "hashable req") (auto simp: acc pd and_then_def Cons.IH simp del: py_get.simps)
  qed
qed

lemma list_all_hashable_chars: "list_all hashable (map (\<lambda>c. PStr [c]) t)"
  by (induction t) simp_all

lemma list_all_hashable_keys: "list_all hashable (map fst rd) = list_all (\<lambda>(k, v). hashable k) rd"
  by (induction rd) auto

lemma properties_step:
  "isl (if dict_lookup d (PStr ''properties'') \<noteq> None
        then and_then (py_getitem (PDict d) ''properties'') (\<lambda>props.
             and_then (py_items props) (\<lambda>items. check_property_types items acc))
        else Inr acc) = (\<not> properties_ok d)"
proof (cases "dict_lookup d (PStr ''properties'')")
  case None
  then show ?thesis by (simp add: properties_ok_def)
next
  case (Some p)
  then show ?thesis
    by (cases p) (simp_all add: properties_ok_def and_then_def isl_check_property_types)
qed

lemma required_step:
  assumes "properties_ok d"
  shows "isl (if dict_lookup d (PStr ''required'') \<noteq> None
        then and_then (py_get (PDict d) ''required'' (PList [])) (\<lambda>reqs.
             and_then (py_iter reqs) (\<lambda>rs. check_required (PDict d) rs acc))
        else Inr acc) = (\<not> required_ok d)"
proof -
  from assms have p: "case dict_lookup d (PStr ''properties'') of None \<Rightarrow> True | Some p \<Rightarrow> is_dict p"
    by (auto simp: properties_ok_def split: option.splits pyval.splits)
  show ?thesis
  proof (cases "dict_lookup d (PStr ''required'')")
    case None
    then show ?thesis by (simp add: required_ok_def)
  next
    case (Some r)
    then show ?thesis
      by (cases r)
        (simp_all add: required_ok_def and_then_def isl_check_required [OF p]
          list_all_hashable_chars list_all_hashable_keys)
  qed
qed

lemma isl_and_then_final:
  assumes "\<And>x. \<not> isl (h x)"
  shows "isl (and_then m (\<lambda>v. and_then (g v) h)) = (isl m \<or> (\<exists>v. m = Inr v \<and> isl (g v)))"
proof (cases m)
  case (Inl e)
  then show ?thesis by (simp add: and_then_def)
next
  case (Inr v)
  show ?thesis using assms by (cases "g v") (simp_all add: Inr and_then_def)
qed

lemma check_mcp_format_PDict:
  "(\<not> isl (check_mcp_format (Some (PDict d)))) = (properties_ok d \<and> required_ok d)"
proof -
  obtain acc1 where
    a1: "check_top_level (PDict d) [''type'', ''properties'', ''required''] ([], []) = Inr acc1"
    using check_top_level_dict by blast
  let ?s2 = "if dict_lookup d (PStr ''properties'') \<noteq> None
        then and_then (py_getitem (PDict d) ''properties'') (\<lambda>props.
             and_then (py_items props) (\<lambda>items. check_property_types items acc1))
        else Inr acc1"
  let ?s3 = "\<lambda>acc2. if dict_lookup d (PStr ''required'') \<noteq> None
        then and_then (py_get (PDict d) ''required'' (PList [])) (\<lambda>reqs.
             and_then (py_iter reqs) (\<lambda>rs. check_required (PDict d) rs acc2))
        else Inr acc2"
  have pin1: "py_in (PStr ''properties'') (PDict d) =
      Inr (dict_lookup d (PStr ''properties'') \<noteq> None)"
    by simp
  have pin2: "py_in (PStr ''required'') (PDict d) =
      Inr (dict_lookup d (PStr ''required'') \<noteq> None)"
    by simp
  have eq: "check_mcp_format (Some (PDict d)) =
      and_then ?s2 (\<lambda>acc2. and_then (?s3 acc2) (\<lambda>(iss, sug).
        Inr \<lparr>valid = (length iss = 0), issues = iss, suggestions = sug,
             parameters = Some (PDict d)\<rparr>))"
    unfolding check_mcp_format_def Let_def option.case
    apply (subst if_not_P, simp)
    apply (subst a1)
    apply (subst pin1)
    apply (subst pin2)
    apply (simp only: and_then_def sum.case)
    done
  have "isl (check_mcp_format (Some (PDict d))) =
      (isl ?s2 \<or> (\<exists>acc2. ?s2 = Inr acc2 \<and> isl (?s3 acc2)))"
    unfolding eq by (rule isl_and_then_final) (simp split: prod.splits)
  also have "\<dots> = (\<not> properties_ok d \<or> \<not> required_ok d)"
  proof (cases "properties_ok d")
    case True
    with properties_step [of d acc1] obtain acc2 where "?s2 = Inr acc2"
      by (cases ?s2) auto
    with True required_step [OF True] properties_step [of d acc1] show ?thesis by simp
  next
    case False
    with properties_step [of d acc1] show ?thesis by simp
  qed
  finally show ?thesis by simp
qed

lemma check_mcp_format_checkable:
  "(\<exists>r. check_mcp_format (Some s) = Inr r) = checkable s"
proof (cases s)
  case (PDict d)
  with check_mcp_format_PDict [of d] show ?thesis
    by (simp add: returns_isl checkable_def)
qed (auto simp: check_mcp_format_def and_then_def checkable_def)

lemma check_mcp_format_valid:
  "check_mcp_format (Some schema_valid) =
   Inr \<lparr>valid = True, issues = [], suggestions = [], parameters = Some schema_valid\<rparr>"
  by (simp add: check_mcp_format_def schema_valid_def and_then_def)

lemma check_mcp_format_untyped_property:
  "check_mcp_format (Some schema_untyped_property) =
   Inr \<lparr>valid = False, issues = [''Parameter q is missing the type field.''],
        suggestions = [''Please add the type field for parameter q.''],
        parameters = Some schema_untyped_property\<rparr>"
  by (simp add: check_mcp_format_def schema_untyped_property_def and_then_def)

lemma check_mcp_format_undefined_required:
  "check_mcp_format (Some schema_undefined_required) =
   Inr \<lparr>valid = False,
        issues = [''Missing top-level field: type'',
                  ''Required parameter missing is not defined in properties.''],
        suggestions = [''Please add the type field in parameters.'',
                       ''Please add the required parameter missing in properties.''],
        parameters = Some schema_undefined_required\<rparr>"
  by (simp add: check_mcp_format_def schema_undefined_required_def and_then_def)

lemma check_mcp_format_absent:
  "check_mcp_format None =
   Inr \<lparr>valid = False,
        issues = [''No parameters attribute found, unable to check parameter format.''],
        suggestions = [''Please add a parameters attribute to the tool.''],
        parameters = None\<rparr>"
  by (simp add: check_mcp_format_def)

text \<open>
  C9, as the code has it. The check returns a result, without raising, exactly for the
  tools whose \<open>parameters\<close> attribute is absent, \<open>None\<close>, or a value on which it can
  run to its end: a dict whose \<open>properties\<close>, when present, is a dict with dicts,
  lists or strings as values and whose \<open>required\<close>, when present, is a list, dict or
  string with hashable elements; or a list or string in which neither \<open>properties\<close>
  nor \<open>required\<close> occurs. On every other value it raises. Every result it returns, on
  any input, has one suggestion per issue and is valid exactly when it has no issue. An
  absent schema, like \<open>None\<close>, gives the single issue "No parameters attribute found";
  the first named schema gives no issue, the second the one issue that \<open>q\<close> has no
  type, the third the two issues that the top-level \<open>type\<close> is missing and that
  \<open>missing\<close> is not defined in properties.
\<close>

theorem check_mcp_format_structured:
  "(check_mcp_format a = Inr r \<longrightarrow>
      length (suggestions r) = length (issues r) \<and> valid r = (issues r = [])) \<and>
   (\<exists>r'. check_mcp_format (Some s) = Inr r') = checkable s \<and>
   (\<exists>e. check_mcp_format (Some s) = Inl e) = (\<not> checkable s) \<and>
   (\<exists>r'. check_mcp_format None = Inr r' \<and> length (issues r') = 1) \<and>
   check_mcp_format (Some PNone) = check_mcp_format None \<and>
   (\<exists>r'. check_mcp_format (Some schema_valid) = Inr r' \<and> valid r' \<and> issues r' = []) \<and>
   (\<exists>r'. check_mcp_format (Some schema_untyped_property) = Inr r' \<and> \<not> valid r' \<and>
      issues r' = [''Parameter q is missing the type field.'']) \<and>
   (\<exists>r'. check_mcp_format (Some schema_undefined_required) = Inr r' \<and> \<not> valid r' \<and>
      issues r' = [''Missing top-level field: type'',
                   ''Required parameter missing is not defined in properties.''])"
proof -
  have "check_mcp_format a = Inr r \<longrightarrow>
      length (suggestions r) = length (issues r) \<and> valid r = (issues r = [])"
    using check_mcp_format_lengths by blast
  moreover have "(\<exists>r'. check_mcp_format (Some s) = Inr r') = checkable s"
    by (rule check_mcp_format_checkable)
  moreover have "(\<exists>e. check_mcp_format (Some s) = Inl e) = (\<not> checkable s)"
    using check_mcp_format_checkable [of s] by (cases "check_mcp_format (Some s)") auto
  moreover have "\<exists>r'. check_mcp_format None = Inr r' \<and> length (issues r') = 1"
    by (simp add: check_mcp_format_absent)
  moreover have "check_mcp_format (Some PNone) = check_mcp_format None"
    by (simp add: check_mcp_format_def)
  moreover have
    "\<exists>r'. check_mcp_format (Some schema_valid) = Inr r' \<and> valid r' \<and> issues r' = []"
    by (simp add: check_mcp_format_valid)
  moreover have
    "\<exists>r'. check_mcp_format (Some schema_untyped_property) = Inr r' \<and> \<not> valid r' \<and>
      issues r' = [''Parameter q is missing the type field.'']"
    by (simp add: check_mcp_format_untyped_property)
  moreover have
    "\<exists>r'. check_mcp_format (Some schema_undefined_required) = Inr r' \<and> \<not> valid r' \<and>
      issues r' = [''Missing top-level field: type'',
                   ''Required parameter missing is not defined in properties.'']"
    by (simp add: check_mcp_format_undefined_required)
  ultimately show ?thesis by blast
qed

theorem check_mcp_format_structured_witness:
  "check_mcp_format (Some schema_untyped_property) =
     Inr \<lparr>valid = False, issues = [''Parameter q is missing the type field.''],
          suggestions = [''Please add the type field for parameter q.''],
          parameters = Some schema_untyped_property\<rparr> \<and>
   length [''Please add the type field for parameter q.''] =
     length [''Parameter q is missing the type field.''] \<and>
   checkable schema_untyped_property \<and>
   (\<exists>r'. check_mcp_format (Some schema_untyped_property) = Inr r')"
proof -
  have shape: "checkable schema_untyped_property"
    by (simp add: checkable_def properties_ok_def required_ok_def container_def
        schema_untyped_property_def)
  from check_mcp_format_structured
    [of "Some schema_untyped_property"
        "\<lparr>valid = False, issues = [''Parameter q is missing the type field.''],
          suggestions = [''Please add the type field for parameter q.''],
          parameters = Some schema_untyped_property\<rparr>"
        schema_untyped_property]
  show ?thesis
    using shape check_mcp_format_untyped_property by simp
qed

text \<open>
  A tool whose \<open>properties\<close> is a list of parameter descriptions makes the check raise
  \<open>AttributeError\<close>: the list has no \<open>items\<close> method.
\<close>

theorem check_mcp_format_raises:
  "check_mcp_format (Some schema_list_properties) =
   Inl (Exc AttributeError (CHR 0x27 # ''list' object has no attribute 'items'' @ [CHR 0x27]))"
  by (simp add: check_mcp_format_def schema_list_properties_def and_then_def no_attribute_def
      repr_str_def repr_char_def squote_def dquote_def backslash_def Let_def)

section \<open>Properties of the configuration check\<close>

lemma entry_malformed_check: "entry_malformed server \<Longrightarrow> \<not> check_server server"
  by (cases server) (auto simp: entry_malformed_def split: option.splits)

lemma check_servers_all: "check_servers servers = list_all (\<lambda>(name, server). check_server server) servers"
  by (induction servers) (auto split: if_splits)

lemma malformed_invalid: "config_malformed config \<Longrightarrow> \<not> is_valid_mcp_servers config"
  by (cases config)
    (auto simp: config_malformed_def check_servers_all list_ex_iff list_all_iff
      split: option.splits pyval.splits dest: entry_malformed_check)

lemma initConfig_invalid:
  "\<not> is_valid_mcp_servers config \<Longrightarrow>
   initConfig L config st = (Inl (Exc ValueError ''Config of mcpservers is not valid''), st)"
  by (simp add: initConfig_def)

lemma check_servers_empty_entry:
  "check_servers (xs @ (name, PDict []) # ys) = check_servers (xs @ ys)"
  by (simp add: check_servers_all)

lemma choose_transport_empty:
  "choose_transport (PDict []) = Inl (Exc KeyError (repr_str ''command''))"
  by (simp add: choose_transport_def and_then_def)

lemma initConfig_empty_entry:
  "initConfig L (PDict [(PStr ''mcpServers'', PDict [(name, PDict [])])]) st =
   (Inl (Exc KeyError (repr_str ''command'')), st)"
  by (simp add: initConfig_def init_config_async_def mcp_servers_of_def init_server_def
      connection_server_def choose_transport_empty)

text \<open>
  C5. A configuration that fails the shape check makes \<open>initConfig\<close> raise
  \<open>ValueError\<close> and leaves the whole state as it was: the client map is unchanged and
  no connection is attempted. Every malformed configuration of the list (\<open>mcpServers\<close>
  missing or not a dict, an entry that is not a dict, a command that is not a string, a
  command without a list-valued \<open>args\<close>) fails the shape check.
\<close>

theorem initConfig_rejects_malformed:
  "(config_malformed config \<longrightarrow> \<not> is_valid_mcp_servers config) \<and>
   (\<not> is_valid_mcp_servers config \<longrightarrow>
      initConfig L config st = (Inl (Exc ValueError ''Config of mcpservers is not valid''), st) \<and>
      clients (snd (initConfig L config st)) = clients st \<and>
      attempts (snd (initConfig L config st)) = attempts st)"
  using malformed_invalid [of config] initConfig_invalid [of config L st] by auto

theorem initConfig_rejects_malformed_witness:
  "config_malformed config_command_without_args \<and>
   \<not> is_valid_mcp_servers config_command_without_args \<and>
   initConfig pylib
     config_command_without_args (proc_init [] Map.empty) =
   (Inl (Exc ValueError ''Config of mcpservers is not valid''), proc_init [] Map.empty)"
proof -
  have m: "config_malformed config_command_without_args"
    by (simp add: config_malformed_def config_command_without_args_def entry_malformed_def)
  from initConfig_rejects_malformed
    [of config_command_without_args
        "pylib"
        "proc_init [] Map.empty"]
  show ?thesis using m by blast
qed

lemma init_server_empty_entry:
  "init_server L name (PDict []) acc st = (Inl (Exc KeyError (repr_str ''command'')), st)"
  by (simp add: init_server_def connection_server_def choose_transport_empty)

lemma init_servers_append:
  "init_servers L pre acc0 st0 = (Inr acc, st) \<Longrightarrow>
   init_servers L (pre @ rest) acc0 st0 = init_servers L rest acc st"
proof (induction pre arbitrary: acc0 st0)
  case Nil
  then show ?case by simp
next
  case (Cons entry pre)
  obtain key server where entry: "entry = (key, server)" by (cases entry)
  from Cons.prems obtain acc1 st1 where
    s1: "init_server L key server acc0 st0 = (Inr acc1, st1)" and
    s2: "init_servers L pre acc1 st1 = (Inr acc, st)"
    by (auto simp: entry split: sum.splits prod.splits)
  from Cons.IH [OF s2] s1 show ?case by (simp add: entry)
qed

text \<open>
  C10, as the code has it. A server entry that is the empty dict passes every check made
  on an entry, so a configuration whose \<open>mcpServers\<close> maps a name to the empty dict
  gets the verdict its other entries get: it is valid exactly when all of them pass, and
  so when it has no other entry. When it is valid and the entries before the empty one
  have been set up, \<open>initConfig\<close> comes to the empty entry, for which
  \<open>connection_server\<close> takes the subprocess branch (it has no \<open>url\<close>), where reading
  \<open>command\<close> raises \<open>KeyError\<close> before any connection is attempted.
\<close>

theorem empty_entry_accepted:
  "check_server (PDict []) \<and>
   (dict_lookup config (PStr ''mcpServers'') = Some (PDict (xs @ (name, PDict []) # ys)) \<longrightarrow>
      is_valid_mcp_servers (PDict config) = check_servers (xs @ ys) \<and>
      is_valid_mcp_servers (PDict config) =
        list_all (\<lambda>(other, server). check_server server) (xs @ ys) \<and>
      (check_servers (xs @ ys) \<and> init_servers L xs [] st = (Inr ts, st1) \<longrightarrow>
         initConfig L (PDict config) st = (Inl (Exc KeyError (repr_str ''command'')), st1))) \<and>
   is_valid_mcp_servers (PDict [(PStr ''mcpServers'', PDict [(name, PDict [])])]) \<and>
   py_in (PStr ''url'') (PDict []) = Inr False \<and>
   choose_transport (PDict []) = Inl (Exc KeyError (repr_str ''command'')) \<and>
   init_server L name (PDict []) acc st_e = (Inl (Exc KeyError (repr_str ''command'')), st_e)"
  using check_servers_empty_entry [of xs name ys] choose_transport_empty
    init_server_empty_entry [of L name acc st_e] init_server_empty_entry [of L name ts st1]
    init_servers_append [of L xs "[]" st ts st1 "(name, PDict []) # ys"]
  by (auto simp: check_servers_all initConfig_def init_config_async_def mcp_servers_of_def)

theorem empty_entry_accepted_witness:
  "is_valid_mcp_servers config_empty_entry \<and>
   initConfig pylib config_empty_entry (proc_init [] Map.empty) =
   (Inl (Exc KeyError (CHR 0x27 # ''command'' @ [CHR 0x27])), proc_init [] Map.empty)"
proof -
  have r: "repr_str ''command'' = CHR 0x27 # ''command'' @ [CHR 0x27]"
    by (simp add: repr_str_def repr_char_def squote_def dquote_def backslash_def Let_def)
  from empty_entry_accepted
    [of "[(PStr ''mcpServers'', PDict [(PStr ''memory'', PDict [])])]" "[]" "PStr ''memory''" "[]"
        pylib "proc_init [] Map.empty" "[]" "proc_init [] Map.empty" "[]" "proc_init [] Map.empty"]
  show ?thesis unfolding config_empty_entry_def r by simp
qed

text \<open>
  A configuration that maps one name to the empty dict and another to a value that is not
  a dict is rejected.
\<close>

theorem empty_entry_with_bad_entry_rejected:
  "dict_lookup [(PStr ''a'', PDict []), (PStr ''b'', PInt 5)] (PStr ''a'') = Some (PDict []) \<and>
   is_valid_mcp_servers config_empty_and_bad = False \<and>
   fst (initConfig pylib config_empty_and_bad (proc_init [] Map.empty)) =
     Inl (Exc ValueError ''Config of mcpservers is not valid'')"
  by (simp add: config_empty_and_bad_def initConfig_def)


section \<open>Properties of tool registration\<close>

lemma attempt_connection_clients:
  "attempt_connection n k s st = (r, st1) \<Longrightarrow>
   clients st1 = clients st \<and> attempts st1 = attempts st @ [(n, k, s)]"
  by (auto simp: attempt_connection_def Let_def split: list.splits)

lemma connection_server_clients:
  "connection_server self n s st = (r, st1) \<Longrightarrow> clients st1 = clients st"
  by (auto simp: connection_server_def Let_def split: sum.splits prod.splits
      dest: attempt_connection_clients)

lemma py_eq_PStr [simp]: "py_eq a (PStr s) = (a = PStr s)"
  by (cases a) auto

lemma stdio_parameters_sqlite [simp]:
  "stdio_parameters_ok (PStr ''uvx'') (PList [PStr ''mcp-server-sqlite'']) PNone"
  by (simp add: stdio_parameters_ok_def)

lemma dict_lookup_set:
  "dict_lookup (dict_set d (PStr k) v) (PStr k') =
     (if k = k' then Some v else dict_lookup d (PStr k'))"
  by (induction d) auto

lemma create_tool_class_parameters:
  "create_tool_class L rn cid tn d p = Inr t \<Longrightarrow>
   t_parameters t = p \<and> t_tool_name t = tn \<and> t_client_id t = cid"
  by (auto simp: create_tool_class_def Let_def split: if_splits sum.splits)

lemma register_tool_schema:
  assumes "register_tool L sn cid mt = Inr t"
  shows "\<exists>ty props.
           dict_lookup (mt_inputSchema mt) (PStr ''type'') = Some ty \<and>
           dict_lookup (mt_inputSchema mt) (PStr ''properties'') = Some props \<and>
           t_parameters t =
             PDict [(PStr ''type'', ty), (PStr ''properties'', props),
                    (PStr ''required'',
                     case dict_lookup (mt_inputSchema mt) (PStr ''required'') of
                       None \<Rightarrow> PList [] | Some req \<Rightarrow> req)]"
  using assms
  by (auto simp: register_tool_def Let_def dict_lookup_set
      split: option.splits if_splits dest!: create_tool_class_parameters)

lemma register_tool_three_keys: "register_tool L sn cid mt = Inr t \<Longrightarrow> three_keys t"
  by (drule register_tool_schema) (auto simp: three_keys_def schema_keys_def)

lemma register_tool_incomplete:
  "\<not> schema_complete mt \<Longrightarrow> register_tool L sn cid mt = Inl (missing_fields_error L mt)"
  by (auto simp: schema_complete_def missing_fields_error_def register_tool_def Let_def
      dict_lookup_set missing_fields_def split: option.splits)

lemma register_tools_three_keys:
  "register_tools L sn cid mts acc = Inr acc' \<Longrightarrow> list_all three_keys acc \<Longrightarrow>
   list_all three_keys acc'"
proof (induction mts arbitrary: acc)
  case Nil
  then show ?case by simp
next
  case (Cons mt mts)
  from Cons.prems(1) obtain t where t: "register_tool L sn cid mt = Inr t"
    and r: "register_tools L sn cid mts (acc @ [t]) = Inr acc'"
    by (auto split: sum.splits)
  show ?case
    by (rule Cons.IH [OF r]) (use Cons.prems(2) register_tool_three_keys [OF t] in simp)
qed

lemma register_tools_missing:
  assumes "mt \<in> set mts"
    and "\<not> schema_complete mt"
  shows "\<exists>e. register_tools L sn cid mts acc = Inl e"
  using assms(1)
proof (induction mts arbitrary: acc)
  case Nil
  then show ?case by simp
next
  case (Cons a mts)
  show ?case
  proof (cases "register_tool L sn cid a")
    case (Inl e)
    then show ?thesis by simp
  next
    case (Inr t)
    with register_tool_incomplete [of mt L sn cid] assms(2) have "a \<noteq> mt" by auto
    with Cons.prems have "mt \<in> set mts" by simp
    from Cons.IH [OF this] Inr show ?thesis by simp
  qed
qed

lemma resource_tools_three_keys:
  "resource_tools L sn cid c acc = Inr acc' \<Longrightarrow> list_all three_keys acc \<Longrightarrow>
   list_all three_keys acc'"
  by (auto simp: resource_tools_def Let_def three_keys_def schema_keys_def read_resource_params_def
      split: sum.splits dest!: create_tool_class_parameters)

lemma init_server_three_keys:
  "init_server L key server acc st = (Inr ts, st') \<Longrightarrow> list_all three_keys acc \<Longrightarrow>
   list_all three_keys ts"
  by (auto simp: init_server_def Let_def
      split: sum.splits prod.splits pyval.splits if_splits
      dest: register_tools_three_keys resource_tools_three_keys)

lemma init_servers_three_keys:
  "init_servers L servers acc st = (Inr ts, st') \<Longrightarrow> list_all three_keys acc \<Longrightarrow>
   list_all three_keys ts"
proof (induction servers arbitrary: acc st)
  case Nil
  then show ?case by simp
next
  case (Cons entry servers)
  obtain key server where entry: "entry = (key, server)" by (cases entry)
  from Cons.prems(1) obtain acc1 st1 where
    s1: "init_server L key server acc st = (Inr acc1, st1)" and
    s2: "init_servers L servers acc1 st1 = (Inr ts, st')"
    by (auto simp: entry split: sum.splits prod.splits)
  from Cons.IH [OF s2 init_server_three_keys [OF s1 Cons.prems(2)]] show ?case .
qed

lemma register_tool_read_query: "register_tool pylib ''sqlite'' ''sqlite_uuid0'' tool_read_query = Inr registered_read_query"
  by (simp add: register_tool_def tool_read_query_def Let_def create_tool_class_def
      is_tool_schema_def pylib_def registered_read_query_def strip_def is_space_def)

lemma register_tool_without_type: "register_tool pylib ''sqlite'' ''sqlite_uuid0'' tool_without_type =
   Inl (Exc ValueError (''Missing required fields in schema: {'' @ [CHR 0x27] @ ''type'' @ [CHR 0x27] @ ''}''))"
  by (simp add: register_tool_def tool_without_type_def Let_def missing_fields_def pylib_def
      repr_str_def repr_char_def squote_def dquote_def backslash_def)

lemma str_nat_0: "str_nat 0 = [CHR 0x30]"
  by (simp add: str_nat.simps digit_char_def)

lemma initConfig_sqlite:
  "initConfig pylib config_sqlite (proc_init [Inr (session_ok, [tool_read_query])] Map.empty) =
   (Inr [registered_read_query],
    (proc_init [] Map.empty)
      \<lparr>clients := [''sqlite_uuid0'' \<mapsto>
          \<lparr>c_session = Some session_ok, c_tools = Some [tool_read_query], c_resources = False,
           c_last_mcp_server_name = Some (PStr ''sqlite''),
           c_last_mcp_server = Some (PDict [(PStr ''command'', PStr ''uvx''),
                (PStr ''args'', PList [PStr ''mcp-server-sqlite''])]),
           c_client_id = Some ''sqlite_uuid0''\<rparr>],
        attempts := [(PStr ''sqlite'', Stdio, PDict [(PStr ''command'', PStr ''uvx''),
                (PStr ''args'', PList [PStr ''mcp-server-sqlite''])])],
        uuid_drawn := 1\<rparr>)"
  by (simp add: initConfig_def config_sqlite_def init_config_async_def mcp_servers_of_def
      init_server_def connection_server_def choose_transport_def and_then_def attempt_connection_def
      proc_init_def MCPClient_def Let_def str_nat_0 register_tool_read_query
      stdio_parameters_ok_def)

lemma register_tools_append:
  "register_tools L sn cid pre acc = Inr acc1 \<Longrightarrow>
   register_tools L sn cid (pre @ rest) acc = register_tools L sn cid rest acc1"
proof (induction pre arbitrary: acc)
  case Nil
  then show ?case by simp
next
  case (Cons mt pre)
  from Cons.prems obtain t where t: "register_tool L sn cid mt = Inr t"
    and r: "register_tools L sn cid pre (acc @ [t]) = Inr acc1"
    by (auto split: sum.splits)
  from Cons.IH [OF r] t show ?case by simp
qed

lemma register_tools_first_incomplete:
  "register_tools L sn cid pre acc = Inr acc1 \<Longrightarrow> \<not> schema_complete mt \<Longrightarrow>
   register_tools L sn cid (pre @ mt # post) acc = Inl (missing_fields_error L mt)"
  by (simp add: register_tools_append register_tool_incomplete)

lemma register_tools_complete:
  "register_tools L sn cid mts acc = Inr acc' \<Longrightarrow> list_all schema_complete mts"
proof (induction mts arbitrary: acc)
  case Nil
  then show ?case by simp
next
  case (Cons mt mts)
  from Cons.prems obtain t where t: "register_tool L sn cid mt = Inr t"
    and r: "register_tools L sn cid mts (acc @ [t]) = Inr acc'"
    by (auto split: sum.splits)
  from t register_tool_incomplete [of mt L sn cid] have "schema_complete mt" by auto
  with Cons.IH [OF r] show ?case by simp
qed

lemma init_server_first_incomplete:
  assumes "connection_server MCPClient (PStr name) server st = (Inr c, st1)"
    and "c_tools c = Some (pre @ mt # post)"
    and "register_tools L name (name @ ''_'' @ uuid_source st1 (uuid_drawn st1)) pre acc = Inr acc1"
    and "\<not> schema_complete mt"
  shows "init_server L (PStr name) server acc st =
     (Inl (missing_fields_error L mt),
      st1\<lparr>uuid_drawn := Suc (uuid_drawn st1),
          clients := (clients st1)(name @ ''_'' @ uuid_source st1 (uuid_drawn st1) \<mapsto>
            c\<lparr>c_client_id := Some (name @ ''_'' @ uuid_source st1 (uuid_drawn st1))\<rparr>)\<rparr>)"
  using assms register_tools_first_incomplete [OF assms(3,4), of post]
  by (simp add: init_server_def Let_def)

lemma initConfig_first_incomplete:
  assumes "is_valid_mcp_servers config"
    and "mcp_servers_of config = pre_s @ (PStr name, server) # post_s"
    and "init_servers L pre_s [] st = (Inr ts0, st1)"
    and "connection_server MCPClient (PStr name) server st1 = (Inr c, st2)"
    and "c_tools c = Some (pre @ mt # post)"
    and "register_tools L name (name @ ''_'' @ uuid_source st2 (uuid_drawn st2)) pre ts0 = Inr acc1"
    and "\<not> schema_complete mt"
  shows "fst (initConfig L config st) = Inl (missing_fields_error L mt)"
  using assms(1,2) init_servers_append [OF assms(3), of "(PStr name, server) # post_s"]
    init_server_first_incomplete [OF assms(4,5,6,7)]
  by (simp add: initConfig_def init_config_async_def)

lemma init_server_complete:
  assumes "init_server L key server acc st = (Inr ts, st')"
    and "clients st' k = Some c"
  shows "clients st k = Some c \<or> list_all schema_complete (tools_of c)"
proof -
  from assms(1) obtain c0 st1 name where
    cs: "connection_server MCPClient key server st = (Inr c0, st1)" and
    key: "key = PStr name" and
    st': "st' = st1\<lparr>uuid_drawn := Suc (uuid_drawn st1),
              clients := (clients st1)(name @ ''_'' @ uuid_source st1 (uuid_drawn st1) \<mapsto>
                c0\<lparr>c_client_id := Some (name @ ''_'' @ uuid_source st1 (uuid_drawn st1))\<rparr>)\<rparr>" and
    "\<exists>acc1. register_tools L name (name @ ''_'' @ uuid_source st1 (uuid_drawn st1))
             (tools_of c0) acc = Inr acc1"
    by (auto simp: init_server_def Let_def tools_of_def
        split: sum.splits prod.splits pyval.splits if_splits)
  then obtain acc1 where
    rt: "register_tools L name (name @ ''_'' @ uuid_source st1 (uuid_drawn st1))
             (tools_of c0) acc = Inr acc1" by blast
  from register_tools_complete [OF rt] have "list_all schema_complete (tools_of c0)" .
  with assms(2) connection_server_clients [OF cs] show ?thesis
    by (auto simp: st' tools_of_def split: if_splits)
qed

lemma init_servers_complete:
  "init_servers L servers acc st = (Inr ts, st') \<Longrightarrow> clients st' k = Some c \<Longrightarrow>
   clients st k = Some c \<or> list_all schema_complete (tools_of c)"
proof (induction servers arbitrary: acc st)
  case Nil
  then show ?case by simp
next
  case (Cons entry servers)
  obtain key server where entry: "entry = (key, server)" by (cases entry)
  from Cons.prems(1) obtain acc1 st1 where
    s1: "init_server L key server acc st = (Inr acc1, st1)" and
    s2: "init_servers L servers acc1 st1 = (Inr ts, st')"
    by (auto simp: entry split: sum.splits prod.splits)
  from Cons.IH [OF s2 Cons.prems(2)] init_server_complete [OF s1, of k c]
  show ?case by blast
qed

text \<open>
  C6, as the code has it. A tool that is registered carries a schema with exactly the
  keys \<open>type\<close>, \<open>properties\<close>, \<open>required\<close>, the first two taken from the upstream
  schema and \<open>required\<close> the empty list when the upstream schema has none. When
  \<open>type\<close> or \<open>properties\<close> is absent upstream, registering the tool raises
  \<open>ValueError\<close> ("Missing required fields in schema", with the set of the missing
  ones). The loop over the tools of a server that lists such a tool ends with an
  exception: with this one when the tools before it registered. \<open>initConfig\<close> ends
  with this one when, besides, the servers before connected and registered their tools
  and the server of the tool connected. When \<open>initConfig\<close> returns, every tool it
  returns has a schema with exactly the three keys, and every client it has added to the
  registry listed only tools with \<open>type\<close> and \<open>properties\<close>.
\<close>

theorem registered_schema:
  "(register_tool L sn cid mt = Inr t \<longrightarrow>
      (\<exists>ty props.
         dict_lookup (mt_inputSchema mt) (PStr ''type'') = Some ty \<and>
         dict_lookup (mt_inputSchema mt) (PStr ''properties'') = Some props \<and>
         t_parameters t =
           PDict [(PStr ''type'', ty), (PStr ''properties'', props),
                  (PStr ''required'',
                   case dict_lookup (mt_inputSchema mt) (PStr ''required'') of
                     None \<Rightarrow> PList [] | Some req \<Rightarrow> req)])) \<and>
   (\<not> schema_complete mt' \<longrightarrow>
      register_tool L sn cid mt' = Inl (missing_fields_error L mt') \<and>
      exc_class_of (missing_fields_error L mt') = ValueError \<and>
      (mt' \<in> set mts \<longrightarrow> (\<exists>e. register_tools L sn cid mts acc = Inl e)) \<and>
      (register_tools L sn cid pre acc = Inr acc1 \<longrightarrow>
         register_tools L sn cid (pre @ mt' # post) acc = Inl (missing_fields_error L mt')) \<and>
      (is_valid_mcp_servers config_f \<and>
       mcp_servers_of config_f = pre_s @ (PStr name, server) # post_s \<and>
       init_servers L pre_s [] st_f = (Inr ts0, st1) \<and>
       connection_server MCPClient (PStr name) server st1 = (Inr c, st2) \<and>
       c_tools c = Some (pre_f @ mt' # post_f) \<and>
       register_tools L name (name @ ''_'' @ uuid_source st2 (uuid_drawn st2)) pre_f ts0 =
         Inr acc_f \<longrightarrow>
         fst (initConfig L config_f st_f) = Inl (missing_fields_error L mt'))) \<and>
   (initConfig L config st = (Inr ts, st') \<longrightarrow>
      list_all three_keys ts \<and>
      (clients st' k = Some c' \<longrightarrow>
         clients st k = Some c' \<or> list_all schema_complete (tools_of c')))"
proof -
  have a: "initConfig L config st = (Inr ts, st') \<Longrightarrow> list_all three_keys ts"
    by (auto simp: initConfig_def init_config_async_def split: if_splits
        dest: init_servers_three_keys)
  have b: "initConfig L config st = (Inr ts, st') \<Longrightarrow> clients st' k = Some c' \<Longrightarrow>
      clients st k = Some c' \<or> list_all schema_complete (tools_of c')"
    by (auto simp: initConfig_def init_config_async_def split: if_splits
        dest: init_servers_complete)
  have c: "\<not> schema_complete mt' \<Longrightarrow> mt' \<in> set mts \<Longrightarrow>
      \<exists>e. register_tools L sn cid mts acc = Inl e"
    using register_tools_missing [of mt' mts L sn cid acc] by (auto simp: schema_complete_def)
  have d: "exc_class_of (missing_fields_error L mt') = ValueError"
    by (simp add: missing_fields_error_def)
  note e = register_tool_incomplete [of mt' L sn cid]
    register_tools_first_incomplete [of L sn cid pre acc acc1 mt' post]
    initConfig_first_incomplete [of config_f pre_s name server post_s L st_f ts0 st1 c st2
      pre_f mt' post_f acc_f]
  show ?thesis
    using a b c d e register_tool_schema [of L sn cid mt t] by blast
qed

theorem registered_schema_witness:
  "register_tool pylib ''sqlite'' ''sqlite_uuid0'' tool_read_query = Inr registered_read_query \<and>
   dict_lookup (mt_inputSchema tool_read_query) (PStr ''required'') = None \<and>
   t_parameters registered_read_query =
     PDict [(PStr ''type'', PStr ''object''),
       (PStr ''properties'', PDict [(PStr ''query'', PDict [(PStr ''type'', PStr ''string'')])]),
       (PStr ''required'', PList [])] \<and>
   schema_complete tool_without_type = False \<and>
   register_tool pylib ''sqlite'' ''sqlite_uuid0'' tool_without_type =
     Inl (Exc ValueError
       (''Missing required fields in schema: {'' @ [CHR 0x27] @ ''type'' @ [CHR 0x27] @ ''}'')) \<and>
   register_tools pylib ''sqlite'' ''sqlite_uuid0'' [tool_read_query, tool_without_type] [] =
     Inl (Exc ValueError
       (''Missing required fields in schema: {'' @ [CHR 0x27] @ ''type'' @ [CHR 0x27] @ ''}'')) \<and>
   fst (initConfig pylib config_sqlite
          (proc_init [Inr (session_ok, [tool_read_query, tool_without_type])] Map.empty)) =
     Inl (Exc ValueError
       (''Missing required fields in schema: {'' @ [CHR 0x27] @ ''type'' @ [CHR 0x27] @ ''}'')) \<and>
   fst (initConfig pylib config_sqlite
          (proc_init [Inr (session_ok, [tool_read_query])] Map.empty)) =
     Inr [registered_read_query] \<and>
   list_all three_keys [registered_read_query] \<and>
   list_all schema_complete (tools_of (client_of session_ok))"
proof -
  let ?st = "proc_init [Inr (session_ok, [tool_read_query, tool_without_type])] Map.empty"
  let ?st2 = "(proc_init [] Map.empty)\<lparr>attempts := [(PStr ''sqlite'', Stdio, sqlite_descriptor)]\<rparr>"
  let ?c = "MCPClient\<lparr>c_last_mcp_server_name := Some (PStr ''sqlite''),
              c_last_mcp_server := Some sqlite_descriptor,
              c_session := Some session_ok,
              c_tools := Some [tool_read_query, tool_without_type]\<rparr>"
  have a: "schema_complete tool_without_type = False"
    by (simp add: schema_complete_def tool_without_type_def)
  have b: "dict_lookup (mt_inputSchema tool_read_query) (PStr ''required'') = None"
    by (simp add: tool_read_query_def)
  have c: "t_parameters registered_read_query =
     PDict [(PStr ''type'', PStr ''object''),
       (PStr ''properties'', PDict [(PStr ''query'', PDict [(PStr ''type'', PStr ''string'')])]),
       (PStr ''required'', PList [])]"
    by (simp add: registered_read_query_def)
  have m: "missing_fields_error pylib tool_without_type =
     Exc ValueError
       (''Missing required fields in schema: {'' @ [CHR 0x27] @ ''type'' @ [CHR 0x27] @ ''}'')"
    by (simp add: missing_fields_error_def tool_without_type_def pylib_def Let_def
        repr_str_def repr_char_def squote_def dquote_def backslash_def)
  have v: "is_valid_mcp_servers config_sqlite"
    by (simp add: config_sqlite_def)
  have s: "mcp_servers_of config_sqlite = [] @ (PStr ''sqlite'', sqlite_descriptor) # []"
    by (simp add: config_sqlite_def mcp_servers_of_def sqlite_descriptor_def)
  have cs: "connection_server MCPClient (PStr ''sqlite'') sqlite_descriptor ?st = (Inr ?c, ?st2)"
    by (simp add: connection_server_def choose_transport_def and_then_def sqlite_descriptor_def
        attempt_connection_def proc_init_def Let_def MCPClient_def)
  have u: "''sqlite'' @ ''_'' @ uuid_source ?st2 (uuid_drawn ?st2) = ''sqlite_uuid0''"
    by (simp add: proc_init_def str_nat_0)
  have r: "register_tools pylib ''sqlite'' ''sqlite_uuid0'' [tool_read_query] [] =
      Inr [registered_read_query]"
    by (simp add: register_tool_read_query)
  have k: "clients (snd (initConfig pylib config_sqlite
          (proc_init [Inr (session_ok, [tool_read_query])] Map.empty))) ''sqlite_uuid0'' =
       Some (client_of session_ok)"
    by (simp add: initConfig_sqlite client_of_def sqlite_descriptor_def)
  have k0: "clients (proc_init [Inr (session_ok, [tool_read_query])] Map.empty) ''sqlite_uuid0'' = None"
    by (simp add: proc_init_def)
  note t1 = registered_schema
    [where L = pylib and sn = "''sqlite''" and cid = "''sqlite_uuid0''" and mt = tool_read_query
       and t = registered_read_query and mt' = tool_without_type
       and mts = "[tool_read_query, tool_without_type]" and acc = "[]"
       and pre = "[tool_read_query]" and ?acc1.0 = "[registered_read_query]" and post = "[]"
       and config_f = config_sqlite and pre_s = "[]" and name = "''sqlite''"
       and server = sqlite_descriptor and post_s = "[]" and st_f = ?st and ?ts0.0 = "[]"
       and ?st1.0 = ?st and c = ?c and ?st2.0 = ?st2 and pre_f = "[tool_read_query]"
       and post_f = "[]" and acc_f = "[registered_read_query]"
       and config = config_sqlite
       and st = "proc_init [Inr (session_ok, [tool_read_query])] Map.empty"
       and ts = "[registered_read_query]"
       and st' = "snd (initConfig pylib config_sqlite
          (proc_init [Inr (session_ok, [tool_read_query])] Map.empty))"
       and k = "''sqlite_uuid0''" and c' = "client_of session_ok"]
  from t1 show ?thesis
    using a b c m v s cs u r k k0 register_tool_read_query initConfig_sqlite
    by (simp add: MCPClient_def)
qed


text \<open>
  A tool whose upstream schema has no \<open>type\<close> is refused with a \<open>ValueError\<close>, which
  is not a \<open>SchemaError\<close>.
\<close>

theorem register_tool_raises_ValueError:
  "register_tool pylib ''sqlite'' ''sqlite_uuid0'' tool_without_type =
     Inl (Exc ValueError
       (''Missing required fields in schema: {'' @ [CHR 0x27] @ ''type'' @ [CHR 0x27] @ ''}'')) \<and>
   exc_class_of (Exc ValueError
       (''Missing required fields in schema: {'' @ [CHR 0x27] @ ''type'' @ [CHR 0x27] @ ''}''))
     \<noteq> SchemaError"
proof -
  have "ValueError \<noteq> SchemaError" by simp
  with register_tool_without_type show ?thesis by simp
qed

section \<open>Properties of execute and reconnect\<close>

lemma connection_server_client_id:
  "connection_server self n s st = (Inr c, st1) \<Longrightarrow>
   c_client_id c = c_client_id self \<and> length (attempts st1) = Suc (length (attempts st))"
  by (auto simp: connection_server_def Let_def split: sum.splits prod.splits
      dest: attempt_connection_clients)

lemma reconnect_clients:
  "reconnect self st = (r, st1) \<Longrightarrow> clients st1 = clients st"
  by (auto simp: reconnect_def split: option.splits dest: connection_server_clients)

lemma reconnect_client_id:
  "reconnect self st = (Inr c, st1) \<Longrightarrow>
   c_client_id c = c_client_id self \<and> length (attempts st1) = Suc (length (attempts st))"
  by (auto simp: reconnect_def MCPClient_def split: option.splits
      dest!: connection_server_client_id)

lemma execute_function_alive:
  "probe self = None \<Longrightarrow>
   execute_function self tn ta st = (dispatch self tn ta, st)"
  by (subst execute_function.simps) simp

lemma execute_function_returns:
  "probe self = Some e \<Longrightarrow> \<exists>s. fst (execute_function self tn ta st) = Inr s"
  by (subst execute_function.simps) (auto split: option.splits sum.splits prod.splits)

lemma execute_function_reconnect_fails:
  "probe self = Some e \<Longrightarrow> c_client_id self = Some cid \<Longrightarrow>
   reconnect self st = (Inl e3, st1) \<Longrightarrow>
   execute_function self tn ta st =
     (Inr (''Session reconnect (client creation) exception: '' @ str_exn e3), st1)"
  by (subst execute_function.simps) simp

lemma execute_function_reconnect_ok:
  "probe self = Some e \<Longrightarrow> c_client_id self = Some cid \<Longrightarrow>
   reconnect self st = (Inr new_client, st1) \<Longrightarrow> probe new_client = None \<Longrightarrow>
   execute_function self tn ta st =
     (Inr (case dispatch new_client tn ta of
             Inr result \<Rightarrow> result
           | Inl e3 \<Rightarrow> ''Session reconnect (client creation) exception: '' @ str_exn e3),
      st1\<lparr>clients := (clients st1)(cid \<mapsto> new_client)\<rparr>)"
  by (subst execute_function.simps) (simp add: execute_function_alive split: sum.splits)

lemma probe_dead: "probe (client_of session_dead) = Some (Exc (OtherError ''ClosedResourceError'') [])"
  by (simp add: probe_def client_of_def session_dead_def)

lemma execute_function_once:
  "execute_function (client_of session_dead) ''read_query'' call_args
     (proc_registered [Inr (session_ok, [tool_read_query])]) =
   (Inr ''ok'',
    (proc_init [] Map.empty)
      \<lparr>clients := [''sqlite_uuid0'' \<mapsto> client_of session_ok],
        attempts := [(PStr ''sqlite'', Stdio, sqlite_descriptor)]\<rparr>)"
  by (simp add: execute_function.simps probe_def client_of_def session_dead_def session_ok_def
      reconnect_def MCPClient_def connection_server_def choose_transport_def and_then_def
      sqlite_descriptor_def attempt_connection_def proc_registered_def proc_init_def Let_def
      dispatch_def call_tool_call_def text_parts_def)

lemma execute_function_refused:
  "execute_function (client_of session_dead) ''read_query'' call_args (proc_registered []) =
   (Inr ''Session reconnect (client creation) exception: Connection refused'',
    (proc_registered [])\<lparr>attempts := [(PStr ''sqlite'', Stdio, sqlite_descriptor)]\<rparr>)"
  by (simp add: execute_function.simps probe_def client_of_def session_dead_def session_ok_def
      reconnect_def MCPClient_def connection_server_def choose_transport_def and_then_def
      sqlite_descriptor_def attempt_connection_def proc_registered_def proc_init_def Let_def
      connection_refused_def)

lemma execute_function_no_id:
  "probe self = Some e \<Longrightarrow> c_client_id self = None \<Longrightarrow>
   execute_function self tn ta st =
     (Inr ''Session reconnect (client creation) exception: client_id is None'', st)"
  by (subst execute_function.simps) simp

lemma execute_function_replay:
  "probe self = Some e \<Longrightarrow> c_client_id self = Some cid \<Longrightarrow>
   reconnect self st = (Inr new_client, st1) \<Longrightarrow>
   execute_function self tn ta st =
     (case execute_function new_client tn ta
             (st1\<lparr>clients := (clients st1)(cid \<mapsto> new_client)\<rparr>) of
        (Inl e3, st2) \<Rightarrow>
          (Inr (''Session reconnect (client creation) exception: '' @ str_exn e3), st2)
      | (Inr result, st2) \<Rightarrow> (Inr result, st2))"
  by (subst execute_function.simps) simp

lemma execute_function_entries:
  "c_client_id self = Some cid \<Longrightarrow>
   (cid' \<noteq> cid \<longrightarrow> clients (snd (execute_function self tn ta st)) cid' = clients st cid') \<and>
   (clients (snd (execute_function self tn ta st)) cid = clients st cid \<or>
    (\<exists>c. clients (snd (execute_function self tn ta st)) cid = Some c \<and>
         c_client_id c = Some cid))"
proof (induction self tn ta st rule: execute_function.induct)
  case (1 self tool_name tool_args st)
  show ?case
  proof (cases "probe self")
    case None
    then show ?thesis by (simp add: execute_function_alive)
  next
    case (Some e)
    obtain r st1 where rc: "reconnect self st = (r, st1)" by (cases "reconnect self st")
    show ?thesis
    proof (cases r)
      case (Inl e3)
      from execute_function_reconnect_fails [OF Some "1.prems" rc [unfolded Inl]]
        reconnect_clients [OF rc]
      show ?thesis by simp
    next
      case (Inr new_client)
      note rc' = rc [unfolded Inr]
      from reconnect_client_id [OF rc'] "1.prems"
      have id: "c_client_id new_client = Some cid" by simp
      note ih = "1.IH" [OF Some "1.prems" rc' [symmetric] refl id]
      from execute_function_replay [OF Some "1.prems" rc']
      have "snd (execute_function self tool_name tool_args st) =
            snd (execute_function new_client tool_name tool_args
                   (st1\<lparr>clients := (clients st1)(cid \<mapsto> new_client)\<rparr>))"
        by (simp split: prod.splits sum.splits)
      with ih reconnect_clients [OF rc] id show ?thesis by auto
    qed
  qed
qed

lemma execute_function_replay_raises:
  "execute_function (client_of session_dead) ''read_query'' call_args
     (proc_registered [Inr (session_raising, [tool_read_query])]) =
   (Inr ''Session reconnect (client creation) exception: Tool failed'',
    (proc_init [] Map.empty)
      \<lparr>clients := [''sqlite_uuid0'' \<mapsto> client_of session_raising],
        attempts := [(PStr ''sqlite'', Stdio, sqlite_descriptor)]\<rparr>)"
  by (simp add: execute_function.simps probe_def client_of_def session_dead_def session_ok_def
      session_raising_def
      reconnect_def MCPClient_def connection_server_def choose_transport_def and_then_def
      sqlite_descriptor_def attempt_connection_def proc_registered_def proc_init_def Let_def
      dispatch_def call_tool_call_def text_parts_def)

text \<open>
  C2, as the code has it. When the liveness probe of a session raises, \<open>execute\<close>
  never raises: it returns a string. A client without an identifier gets the text
  "... client_id is None" and nothing changes. For a client with an identifier, a
  reconnect under the same identifier is attempted. When it fails, the error text
  "Session reconnect (client creation) exception: ..." is returned and the client map is
  unchanged. When it succeeds, the replacement has the same identifier, one connection
  attempt has been made, the replacement is stored in the client map under the
  identifier, and the call is made again on the replacement as a whole: the replacement
  is probed in turn and replaced when its probe raises. If the probe of the replacement
  passes, the result of the replayed call is returned, or the error text when the replayed
  call raises; in both cases the entry of the identifier is the replacement. Whatever
  happens, no entry of the client map under another identifier changes, and the entry of
  the identifier is the one it was or a client with that identifier.
\<close>

theorem execute_function_probe_fails:
  "probe self = Some e \<longrightarrow>
     (\<exists>s. fst (execute_function self tn ta st) = Inr s) \<and>
     (c_client_id self = None \<longrightarrow>
        execute_function self tn ta st =
          (Inr ''Session reconnect (client creation) exception: client_id is None'', st)) \<and>
     (c_client_id self = Some cid \<longrightarrow>
        (cid' \<noteq> cid \<longrightarrow>
           clients (snd (execute_function self tn ta st)) cid' = clients st cid') \<and>
        (clients (snd (execute_function self tn ta st)) cid = clients st cid \<or>
         (\<exists>c. clients (snd (execute_function self tn ta st)) cid = Some c \<and>
              c_client_id c = Some cid))) \<and>
     (c_client_id self = Some cid \<and> reconnect self st_f = (Inl e3, st_f1) \<longrightarrow>
        execute_function self tn ta st_f =
          (Inr (''Session reconnect (client creation) exception: '' @ str_exn e3), st_f1) \<and>
        clients st_f1 = clients st_f) \<and>
     (c_client_id self = Some cid \<and> reconnect self st = (Inr new_client, st1) \<longrightarrow>
        c_client_id new_client = Some cid \<and>
        length (attempts st1) = Suc (length (attempts st)) \<and>
        execute_function self tn ta st =
          (case execute_function new_client tn ta
                  (st1\<lparr>clients := (clients st1)(cid \<mapsto> new_client)\<rparr>) of
             (Inl e3, st2) \<Rightarrow>
               (Inr (''Session reconnect (client creation) exception: '' @ str_exn e3), st2)
           | (Inr result, st2) \<Rightarrow> (Inr result, st2)) \<and>
        (probe new_client = None \<longrightarrow>
           execute_function self tn ta st =
             (Inr (case dispatch new_client tn ta of
                     Inr result \<Rightarrow> result
                   | Inl e3 \<Rightarrow>
                       ''Session reconnect (client creation) exception: '' @ str_exn e3),
              st1\<lparr>clients := (clients st1)(cid \<mapsto> new_client)\<rparr>)))"
proof -
  have a: "probe self = Some e \<Longrightarrow> \<exists>s. fst (execute_function self tn ta st) = Inr s"
    by (rule execute_function_returns)
  have b: "probe self = Some e \<Longrightarrow> c_client_id self = None \<Longrightarrow>
        execute_function self tn ta st =
          (Inr ''Session reconnect (client creation) exception: client_id is None'', st)"
    by (rule execute_function_no_id)
  note c = execute_function_entries [of self cid cid' tn ta st]
  note d = execute_function_reconnect_fails [of self e cid st_f e3 st_f1 tn ta]
    reconnect_clients [of self st_f "Inl e3" st_f1]
  have f0: "c_client_id self = Some cid \<Longrightarrow> reconnect self st = (Inr new_client, st1) \<Longrightarrow>
      c_client_id new_client = Some cid \<and> length (attempts st1) = Suc (length (attempts st))"
    using reconnect_client_id [of self st new_client st1] by simp
  note f = f0
    execute_function_replay [of self e cid st new_client st1 tn ta]
    execute_function_reconnect_ok [of self e cid st new_client st1 tn ta]
  show ?thesis
    using a b c d f by blast
qed

theorem execute_function_probe_fails_witness:
  "probe (client_of session_dead) = Some (Exc (OtherError ''ClosedResourceError'') []) \<and>
   c_client_id (client_of session_dead) = Some ''sqlite_uuid0'' \<and>
   reconnect (client_of session_dead) (proc_registered []) =
     (Inl connection_refused,
      (proc_registered [])\<lparr>attempts := [(PStr ''sqlite'', Stdio, sqlite_descriptor)]\<rparr>) \<and>
   execute_function (client_of session_dead) ''read_query'' call_args (proc_registered []) =
     (Inr ''Session reconnect (client creation) exception: Connection refused'',
      (proc_registered [])\<lparr>attempts := [(PStr ''sqlite'', Stdio, sqlite_descriptor)]\<rparr>) \<and>
   reconnect (client_of session_dead) (proc_registered [Inr (session_ok, [tool_read_query])]) =
     (Inr (client_of session_ok),
      (proc_registered [])\<lparr>attempts := [(PStr ''sqlite'', Stdio, sqlite_descriptor)]\<rparr>) \<and>
   probe (client_of session_ok) = None \<and>
   execute_function (client_of session_dead) ''read_query'' call_args
     (proc_registered [Inr (session_ok, [tool_read_query])]) =
   (Inr ''ok'',
    (proc_init [] Map.empty)
      \<lparr>clients := [''sqlite_uuid0'' \<mapsto> client_of session_ok],
        attempts := [(PStr ''sqlite'', Stdio, sqlite_descriptor)]\<rparr>) \<and>
   reconnect (client_of session_dead)
       (proc_registered [Inr (session_raising, [tool_read_query])]) =
     (Inr (client_of session_raising),
      (proc_registered [])\<lparr>attempts := [(PStr ''sqlite'', Stdio, sqlite_descriptor)]\<rparr>) \<and>
   probe (client_of session_raising) = None \<and>
   dispatch (client_of session_raising) ''read_query'' call_args =
     Inl (Exc (OtherError ''McpError'') ''Tool failed'') \<and>
   execute_function (client_of session_dead) ''read_query'' call_args
     (proc_registered [Inr (session_raising, [tool_read_query])]) =
   (Inr ''Session reconnect (client creation) exception: Tool failed'',
    (proc_init [] Map.empty)
      \<lparr>clients := [''sqlite_uuid0'' \<mapsto> client_of session_raising],
        attempts := [(PStr ''sqlite'', Stdio, sqlite_descriptor)]\<rparr>)"
proof -
  have r1: "reconnect (client_of session_dead) (proc_registered []) =
     (Inl connection_refused,
      (proc_registered [])\<lparr>attempts := [(PStr ''sqlite'', Stdio, sqlite_descriptor)]\<rparr>)"
    by (simp add: client_of_def reconnect_def MCPClient_def connection_server_def
        choose_transport_def and_then_def sqlite_descriptor_def attempt_connection_def
        proc_registered_def proc_init_def Let_def)
  have r2: "reconnect (client_of session_dead)
       (proc_registered [Inr (sess, [tool_read_query])]) =
     (Inr (client_of sess),
      (proc_registered [])\<lparr>attempts := [(PStr ''sqlite'', Stdio, sqlite_descriptor)]\<rparr>)"
    for sess
    by (simp add: client_of_def reconnect_def MCPClient_def connection_server_def
        choose_transport_def and_then_def sqlite_descriptor_def attempt_connection_def
        proc_registered_def proc_init_def Let_def)
  have p: "probe (client_of session_ok) = None"
    by (simp add: probe_def client_of_def session_ok_def)
  have p': "probe (client_of session_raising) = None"
    by (simp add: probe_def client_of_def session_ok_def session_raising_def)
  have d': "dispatch (client_of session_raising) ''read_query'' call_args =
     Inl (Exc (OtherError ''McpError'') ''Tool failed'')"
    by (simp add: dispatch_def call_tool_call_def client_of_def session_raising_def)
  have c: "c_client_id (client_of session_dead) = Some ''sqlite_uuid0''"
    by (simp add: client_of_def)
  note t1 = execute_function_probe_fails
    [of "client_of session_dead" "Exc (OtherError ''ClosedResourceError'') []"
        "''read_query''" call_args "proc_registered [Inr (session_ok, [tool_read_query])]"
        "''sqlite_uuid0''" "''other''" "proc_registered []" connection_refused
        "(proc_registered [])\<lparr>attempts := [(PStr ''sqlite'', Stdio, sqlite_descriptor)]\<rparr>"
        "client_of session_ok"
        "(proc_registered [])\<lparr>attempts := [(PStr ''sqlite'', Stdio, sqlite_descriptor)]\<rparr>"]
  note t2 = execute_function_probe_fails
    [of "client_of session_dead" "Exc (OtherError ''ClosedResourceError'') []"
        "''read_query''" call_args "proc_registered [Inr (session_raising, [tool_read_query])]"
        "''sqlite_uuid0''" "''other''" "proc_registered []" connection_refused
        "(proc_registered [])\<lparr>attempts := [(PStr ''sqlite'', Stdio, sqlite_descriptor)]\<rparr>"
        "client_of session_raising"
        "(proc_registered [])\<lparr>attempts := [(PStr ''sqlite'', Stdio, sqlite_descriptor)]\<rparr>"]
  from t1 t2 show ?thesis
    using probe_dead r1 r2 p p' d' c execute_function_once execute_function_refused
      execute_function_replay_raises
    by simp
qed


text \<open>
  When the replacement of a dead session is dead too, it is replaced in turn: one call
  makes two connection attempts.
\<close>

theorem execute_function_reconnects_twice:
  "execute_function (client_of session_dead) ''read_query'' call_args
     (proc_registered [Inr (session_dead, [tool_read_query]), Inr (session_ok, [tool_read_query])]) =
   (Inr ''ok'',
    (proc_init [] Map.empty)
      \<lparr>clients := [''sqlite_uuid0'' \<mapsto> client_of session_ok],
        attempts := [(PStr ''sqlite'', Stdio, sqlite_descriptor),
                     (PStr ''sqlite'', Stdio, sqlite_descriptor)]\<rparr>)"
  by (simp add: execute_function.simps probe_def client_of_def session_dead_def session_ok_def
      reconnect_def MCPClient_def connection_server_def choose_transport_def and_then_def
      sqlite_descriptor_def attempt_connection_def proc_registered_def proc_init_def Let_def
      dispatch_def call_tool_call_def text_parts_def)

section \<open>Properties of loading\<close>

lemma load_mcp_config_returns:
  "\<exists>ts. fst (load_mcp_config L p rc st) = Inr ts"
  by (auto simp: load_mcp_config_def split: prod.splits sum.splits)

lemma load_missing_file:
  "files st (abspath (cwd st) p) = None \<Longrightarrow> load_mcp_config L p rc st = (Inr [], st)"
  by (simp add: load_mcp_config_def load_mcp_config_body_def read_file_def)

lemma load_malformed_json:
  "files st (abspath (cwd st) p) = Some content \<Longrightarrow> json_loads L content = None \<Longrightarrow>
   load_mcp_config L p rc st = (Inr [], st)"
  by (simp add: load_mcp_config_def load_mcp_config_body_def read_file_def)

lemma load_invalid_shape:
  "files st (abspath (cwd st) p) = Some content \<Longrightarrow> json_loads L content = Some config \<Longrightarrow>
   \<not> is_valid_mcp_servers config \<Longrightarrow>
   load_mcp_config L p rc st = (Inr [], st)"
  by (simp add: load_mcp_config_def load_mcp_config_body_def read_file_def initConfig_def)

lemma wrap_tools_Nil: "wrap_tools [] = Inr []"
  by (simp add: wrap_tools_def)

lemma loads_bad: "loads_model ''{not json'' = None"
  by (simp add: loads_model_def skip_ws_def json_ws_def dquote_def)

lemma loads_empty_object: "loads_model ''{}'' = Some (PDict [])"
  by (simp add: loads_model_def skip_ws_def json_ws_def dquote_def)

lemma example_missing: "files (proc_init [] example_files) (abspath (cwd (proc_init [] example_files)) ''missing.json'') = None"
  by (simp add: proc_init_def example_files_def abspath_def)

lemma example_bad: "files (proc_init [] example_files) (abspath (cwd (proc_init [] example_files)) ''bad.json'') = Some ''{not json''"
  by (simp add: proc_init_def example_files_def abspath_def)

lemma example_noservers: "files (proc_init [] example_files) (abspath (cwd (proc_init [] example_files)) ''noservers.json'') = Some ''{}''"
  by (simp add: proc_init_def example_files_def abspath_def)

text \<open>
  C1, as the code has it. \<open>load_mcp_config\<close> never raises: it always returns a list.
  For a missing file, a file that is not JSON and a configuration that fails the shape
  check, it returns the empty list and leaves the state as it was.
\<close>

theorem load_mcp_config_failures:
  "(\<exists>ts. fst (load_mcp_config L p rc st) = Inr ts) \<and>
   (files st (abspath (cwd st) p) = None \<longrightarrow> load_mcp_config L p rc st = (Inr [], st)) \<and>
   (files st (abspath (cwd st) p') = Some content \<and> json_loads L content = None \<longrightarrow>
      load_mcp_config L p' rc st = (Inr [], st)) \<and>
   (files st (abspath (cwd st) p'') = Some content' \<and> json_loads L content' = Some config \<and>
    \<not> is_valid_mcp_servers config \<longrightarrow>
      load_mcp_config L p'' rc st = (Inr [], st))"
  using load_mcp_config_returns [of L p rc st] load_missing_file [of st p L rc]
    load_malformed_json [of st p' content L rc]
    load_invalid_shape [of st p'' content' L config rc]
  by blast

theorem load_mcp_config_failures_witness:
  "files (proc_init [] example_files)
     (abspath (cwd (proc_init [] example_files)) ''missing.json'') = None \<and>
   load_mcp_config pylib ''missing.json'' False (proc_init [] example_files) =
     (Inr [], proc_init [] example_files) \<and>
   json_loads pylib ''{not json'' = None \<and>
   load_mcp_config pylib ''bad.json'' False (proc_init [] example_files) =
     (Inr [], proc_init [] example_files) \<and>
   json_loads pylib ''{}'' = Some (PDict []) \<and>
   \<not> is_valid_mcp_servers (PDict []) \<and>
   load_mcp_config pylib ''noservers.json'' False (proc_init [] example_files) =
     (Inr [], proc_init [] example_files)"
proof -
  have l1: "json_loads pylib ''{not json'' = None" by (simp add: pylib_def loads_bad)
  have l2: "json_loads pylib ''{}'' = Some (PDict [])" by (simp add: pylib_def loads_empty_object)
  from load_mcp_config_failures
    [of pylib "''missing.json''" False "proc_init [] example_files" "''bad.json''" "''{not json''"
        "''noservers.json''" "''{}''" "PDict []"]
  show ?thesis
    using example_missing example_bad example_noservers l1 l2 by simp
qed

text \<open>
  Loading a file that does not exist returns normally: the empty list from
  \<open>load_mcp_config\<close>, the empty map from \<open>create_callable_mcp_tools\<close>.
\<close>

theorem load_missing_file_returns:
  "load_mcp_config pylib ''missing.json'' False (proc_init [] Map.empty) =
     (Inr [], proc_init [] Map.empty) \<and>
   create_callable_mcp_tools pylib ''missing.json'' (proc_init [] Map.empty) =
     (Inr [], proc_init [] Map.empty)"
  by (simp add: create_callable_mcp_tools_def load_mcp_config_def load_mcp_config_body_def
      read_file_def proc_init_def wrap_tools_def)

end
